theory Spec2Isabelle
  imports Complex_Main
begin

text \<open>
  A model of the module \<open>stdpipe.catalogs\<close>: the retrieval of a catalogue from Vizier
  with the photometric augmentation of the supported catalogues (\<open>get_cat_vizier\<close>),
  and the three cross-matching functions \<open>xmatch_objects\<close>, \<open>xmatch_skybot\<close> and
  \<open>xmatch_ned\<close>. Tables are modelled column by column, as the code computes with them;
  the remote services are parameters; exceptions are values; what a function prints and
  which queries it sends is recorded in a trace.
\<close>

section \<open>Python exceptions\<close>

text \<open>
  The exception classes that the module can meet, with Python's class hierarchy.
  An exception value is identified with its class; messages are not modelled.
  \<open>TableMergeError\<close> is astropy's (a \<open>ValueError\<close>), \<open>RemoteServiceError\<close> is
  astroquery's (a plain \<open>Exception\<close>).
\<close>

datatype exc_class =
    BaseException | Exception | KeyboardInterrupt
  | RuntimeError | NotImplementedError
  | LookupError | KeyError | IndexError
  | OSError | ConnectionError | ConnectionResetError | TimeoutError
  | ValueError | TypeError | TableMergeError | RemoteServiceError

type_synonym py_error = exc_class

text \<open>The method resolution order: the class itself followed by its base classes.\<close>

fun mro :: "exc_class \<Rightarrow> exc_class list" where
  "mro BaseException = [BaseException]"
| "mro Exception = [Exception, BaseException]"
| "mro KeyboardInterrupt = [KeyboardInterrupt, BaseException]"
| "mro RuntimeError = [RuntimeError, Exception, BaseException]"
| "mro NotImplementedError = [NotImplementedError, RuntimeError, Exception, BaseException]"
| "mro LookupError = [LookupError, Exception, BaseException]"
| "mro KeyError = [KeyError, LookupError, Exception, BaseException]"
| "mro IndexError = [IndexError, LookupError, Exception, BaseException]"
| "mro OSError = [OSError, Exception, BaseException]"
| "mro ConnectionError = [ConnectionError, OSError, Exception, BaseException]"
| "mro ConnectionResetError =
     [ConnectionResetError, ConnectionError, OSError, Exception, BaseException]"
| "mro TimeoutError = [TimeoutError, OSError, Exception, BaseException]"
| "mro ValueError = [ValueError, Exception, BaseException]"
| "mro TypeError = [TypeError, Exception, BaseException]"
| "mro TableMergeError = [TableMergeError, ValueError, Exception, BaseException]"
| "mro RemoteServiceError = [RemoteServiceError, Exception, BaseException]"

definition isinstance :: "py_error \<Rightarrow> exc_class \<Rightarrow> bool" where
  "isinstance e c = (c \<in> set (mro e))"

text \<open>\<open>except (c1, c2, ...)\<close> catches an exception that is an instance of one of the classes.\<close>

definition except_matches :: "exc_class list \<Rightarrow> py_error \<Rightarrow> bool" where
  "except_matches cs e = list_ex (isinstance e) cs"

text \<open>Sequencing of computations that may raise: the first exception wins.\<close>

definition bnd :: "py_error + 'a \<Rightarrow> ('a \<Rightarrow> py_error + 'b) \<Rightarrow> py_error + 'b" where
  "bnd m f = (case m of Inl e \<Rightarrow> Inl e | Inr x \<Rightarrow> f x)"

section \<open>Tables\<close>

text \<open>
  A table is an ordered collection of named columns plus a metadata dictionary.
  Numeric cells are exact reals: rounding, NaN and infinities of the floating point
  numbers are outside the model. A masked column holds cells of which some are
  \<open>Masked\<close>; the other column kinds hold no masked entry.
\<close>

datatype cell = Num real | Flag bool | Str string | Masked

datatype column =
    NumCol "real list" | BoolCol "bool list" | StrCol "string list" | MaskedCol "cell list"

fun cells :: "column \<Rightarrow> cell list" where
  "cells (NumCol xs) = map Num xs"
| "cells (BoolCol bs) = map Flag bs"
| "cells (StrCol ss) = map Str ss"
| "cells (MaskedCol cs) = cs"

definition col_len :: "column \<Rightarrow> nat" where
  "col_len c = length (cells c)"

record table =
  cols :: "(string \<times> column) list"
  meta :: "(string \<times> string) list"

definition keys :: "table \<Rightarrow> string list" where
  "keys t = map fst (cols t)"

text \<open>\<open>len(t)\<close>: the number of rows.\<close>

definition tlen :: "table \<Rightarrow> nat" where
  "tlen t = (case cols t of [] \<Rightarrow> 0 | (_, c) # _ \<Rightarrow> col_len c)"

text \<open>\<open>t[name]\<close> raises \<open>KeyError\<close> for a column that is not there.\<close>

definition getitem :: "table \<Rightarrow> string \<Rightarrow> py_error + column" where
  "getitem t name = (case map_of (cols t) name of None \<Rightarrow> Inl KeyError | Some c \<Rightarrow> Inr c)"

text \<open>
  Dictionary assignment \<open>d[k] = v\<close>: an existing key keeps its position, a new key goes last.
\<close>

fun dict_put :: "'k \<Rightarrow> 'v \<Rightarrow> ('k \<times> 'v) list \<Rightarrow> ('k \<times> 'v) list" where
  "dict_put k v [] = [(k, v)]"
| "dict_put k v ((k', v') # kvs) =
     (if k = k' then (k, v) # kvs else (k', v') # dict_put k v kvs)"

text \<open>
  \<open>t[name] = column\<close>: replaces the column of that name or appends a new one; the length
  must agree with the table's unless the table has no column yet.
\<close>

definition setitem :: "table \<Rightarrow> string \<Rightarrow> column \<Rightarrow> py_error + table" where
  "setitem t name c =
     (if cols t \<noteq> [] \<and> col_len c \<noteq> tlen t then Inl ValueError
      else Inr (t\<lparr>cols := dict_put name c (cols t)\<rparr>))"

text \<open>A scalar of each kind broadcast to a column of \<open>n\<close> rows.\<close>

fun broadcast :: "nat \<Rightarrow> cell \<Rightarrow> column" where
  "broadcast n (Num x) = NumCol (replicate n x)"
| "broadcast n (Flag b) = BoolCol (replicate n b)"
| "broadcast n (Str s) = StrCol (replicate n s)"
| "broadcast n Masked = MaskedCol (replicate n Masked)"

text \<open>
  \<open>t[name] = scalar\<close>: the scalar fills every row; a table without rows refuses it.
\<close>

definition setitem_scalar :: "table \<Rightarrow> string \<Rightarrow> cell \<Rightarrow> py_error + table" where
  "setitem_scalar t name v =
     (if tlen t = 0 then Inl TypeError else setitem t name (broadcast (tlen t) v))"

text \<open>
  \<open>t.rename_column(old, new)\<close> raises \<open>KeyError\<close> when \<open>old\<close> is missing or \<open>new\<close> is
  taken; \<open>rename_columns\<close> renames the pairs one after the other.
\<close>

definition rename_column :: "table \<Rightarrow> string \<Rightarrow> string \<Rightarrow> py_error + table" where
  "rename_column t old new =
     (if old \<notin> set (keys t) then Inl KeyError
      else if new \<in> set (keys t) then Inl KeyError
      else Inr (t\<lparr>cols := map (\<lambda>(k, c). (if k = old then new else k, c)) (cols t)\<rparr>))"

fun rename_columns :: "table \<Rightarrow> (string \<times> string) list \<Rightarrow> py_error + table" where
  "rename_columns t [] = Inr t"
| "rename_columns t ((old, new) # rest) =
     bnd (rename_column t old new) (\<lambda>t'. rename_columns t' rest)"

section \<open>Vectorised expressions\<close>

text \<open>
  A value of an array expression is a scalar or a column. Arithmetic broadcasts a scalar
  against a column; two columns must have the same length. Arithmetic and comparison
  are modelled on numeric columns, the boolean connective on boolean columns; any other
  combination raises \<open>TypeError\<close>.
\<close>

datatype pyval = Scalar real | Array column

fun binop :: "(real \<Rightarrow> real \<Rightarrow> real) \<Rightarrow> pyval \<Rightarrow> pyval \<Rightarrow> py_error + pyval" where
  "binop f (Scalar a) (Scalar b) = Inr (Scalar (f a b))"
| "binop f (Scalar a) (Array (NumCol ys)) = Inr (Array (NumCol (map (f a) ys)))"
| "binop f (Array (NumCol xs)) (Scalar b) = Inr (Array (NumCol (map (\<lambda>x. f x b) xs)))"
| "binop f (Array (NumCol xs)) (Array (NumCol ys)) =
     (if length xs = length ys then Inr (Array (NumCol (map2 f xs ys))) else Inl ValueError)"
| "binop f _ _ = Inl TypeError"

fun unop :: "(real \<Rightarrow> real) \<Rightarrow> pyval \<Rightarrow> py_error + pyval" where
  "unop f (Scalar a) = Inr (Scalar (f a))"
| "unop f (Array (NumCol xs)) = Inr (Array (NumCol (map f xs)))"
| "unop f _ = Inl TypeError"

fun cmpop :: "(real \<Rightarrow> real \<Rightarrow> bool) \<Rightarrow> pyval \<Rightarrow> pyval \<Rightarrow> py_error + pyval" where
  "cmpop f (Array (NumCol xs)) (Scalar b) = Inr (Array (BoolCol (map (\<lambda>x. f x b) xs)))"
| "cmpop f (Scalar a) (Array (NumCol ys)) = Inr (Array (BoolCol (map (f a) ys)))"
| "cmpop f (Array (NumCol xs)) (Array (NumCol ys)) =
     (if length xs = length ys then Inr (Array (BoolCol (map2 f xs ys))) else Inl ValueError)"
| "cmpop f _ _ = Inl TypeError"

fun andop :: "pyval \<Rightarrow> pyval \<Rightarrow> py_error + pyval" where
  "andop (Array (BoolCol xs)) (Array (BoolCol ys)) =
     (if length xs = length ys then Inr (Array (BoolCol (map2 (\<and>) xs ys))) else Inl ValueError)"
| "andop _ _ = Inl TypeError"

text \<open>\<open>np.polyval(p, x)\<close>: Horner's scheme, highest coefficient first.\<close>

definition polyval :: "real list \<Rightarrow> real \<Rightarrow> real" where
  "polyval p x = foldl (\<lambda>y pv. y * x + pv) 0 p"

text \<open>Boolean mask indexing \<open>x[mask]\<close> and assignment \<open>x[mask] = values\<close>.\<close>

fun bool_index :: "'a list \<Rightarrow> bool list \<Rightarrow> 'a list" where
  "bool_index (x # xs) (b # bs) = (if b then x # bool_index xs bs else bool_index xs bs)"
| "bool_index _ _ = []"

fun bool_assign :: "'a list \<Rightarrow> bool list \<Rightarrow> 'a list \<Rightarrow> 'a list" where
  "bool_assign (x # xs) (True # bs) (v # vs) = v # bool_assign xs bs vs"
| "bool_assign (x # xs) (False # bs) vs = x # bool_assign xs bs vs"
| "bool_assign xs _ _ = xs"

fun mask_get :: "pyval \<Rightarrow> pyval \<Rightarrow> py_error + pyval" where
  "mask_get (Array (NumCol xs)) (Array (BoolCol bs)) =
     (if length bs = length xs then Inr (Array (NumCol (bool_index xs bs))) else Inl IndexError)"
| "mask_get _ _ = Inl IndexError"

fun mask_set :: "pyval \<Rightarrow> pyval \<Rightarrow> pyval \<Rightarrow> py_error + pyval" where
  "mask_set (Array (NumCol xs)) (Array (BoolCol bs)) (Array (NumCol vs)) =
     (if length bs \<noteq> length xs then Inl IndexError
      else if length vs \<noteq> length (filter id bs) then Inl ValueError
      else Inr (Array (NumCol (bool_assign xs bs vs))))"
| "mask_set (Array (NumCol xs)) (Array (BoolCol bs)) (Scalar v) =
     (if length bs \<noteq> length xs then Inl IndexError
      else Inr (Array (NumCol (bool_assign xs bs (replicate (length xs) v)))))"
| "mask_set _ _ _ = Inl TypeError"

text \<open>
  An expression is evaluated against the table it reads, operands left to right, and
  may raise. The combinators below are the operators of the source.
\<close>

type_synonym cexp = "table \<Rightarrow> py_error + pyval"

definition e_col :: "string \<Rightarrow> cexp" where
  "e_col name t = bnd (getitem t name) (\<lambda>c. Inr (Array c))"

definition e_num :: "real \<Rightarrow> cexp" where
  "e_num r t = Inr (Scalar r)"

definition e_val :: "pyval \<Rightarrow> cexp" where
  "e_val v t = Inr v"

definition e_bin :: "(real \<Rightarrow> real \<Rightarrow> real) \<Rightarrow> cexp \<Rightarrow> cexp \<Rightarrow> cexp" where
  "e_bin f a b t = bnd (a t) (\<lambda>x. bnd (b t) (\<lambda>y. binop f x y))"

definition e_add :: "cexp \<Rightarrow> cexp \<Rightarrow> cexp" where
  "e_add = e_bin (+)"

definition e_sub :: "cexp \<Rightarrow> cexp \<Rightarrow> cexp" where
  "e_sub = e_bin (-)"

definition e_mul :: "cexp \<Rightarrow> cexp \<Rightarrow> cexp" where
  "e_mul = e_bin (*)"

text \<open>
  Division by zero does not raise in array arithmetic; it gives an infinity or a NaN,
  which the exact reals do not have. The value of the model there carries no meaning,
  and statements about quotients are made for divisors other than zero.
\<close>

definition e_div :: "cexp \<Rightarrow> cexp \<Rightarrow> cexp" where
  "e_div = e_bin (/)"

definition e_pow :: "cexp \<Rightarrow> nat \<Rightarrow> cexp" where
  "e_pow a n t = bnd (a t) (unop (\<lambda>x. x ^ n))"

definition e_polyval :: "real list \<Rightarrow> cexp \<Rightarrow> cexp" where
  "e_polyval p a t = bnd (a t) (unop (polyval p))"

definition e_gt :: "cexp \<Rightarrow> cexp \<Rightarrow> cexp" where
  "e_gt a b t = bnd (a t) (\<lambda>x. bnd (b t) (\<lambda>y. cmpop (\<lambda>u v. u > v) x y))"

definition e_lt :: "cexp \<Rightarrow> cexp \<Rightarrow> cexp" where
  "e_lt a b t = bnd (a t) (\<lambda>x. bnd (b t) (\<lambda>y. cmpop (\<lambda>u v. u < v) x y))"

definition e_and :: "cexp \<Rightarrow> cexp \<Rightarrow> cexp" where
  "e_and a b t = bnd (a t) (\<lambda>x. bnd (b t) (\<lambda>y. andop x y))"

definition e_index :: "cexp \<Rightarrow> cexp \<Rightarrow> cexp" where
  "e_index a m t = bnd (a t) (\<lambda>x. bnd (m t) (\<lambda>k. mask_get x k))"

text \<open>
  A statement \<open>cat[name] = expression\<close>: the right-hand side is evaluated, then stored.
  Storing a scalar broadcasts it.
\<close>

type_synonym stmt = "table \<Rightarrow> py_error + table"

definition assign :: "string \<Rightarrow> cexp \<Rightarrow> stmt" where
  "assign name e t =
     bnd (e t) (\<lambda>v. case v of Array c \<Rightarrow> setitem t name c
                            | Scalar r \<Rightarrow> setitem_scalar t name (Num r))"

fun run :: "stmt list \<Rightarrow> stmt" where
  "run [] t = Inr t"
| "run (s # ss) t = bnd (s t) (run ss)"

section \<open>The catalogue descriptors\<close>

record descriptor =
  d_vizier :: string
  d_name :: string
  d_extra :: "string list option"

definition catalogs :: "(string \<times> descriptor) list" where
  "catalogs =
    [(''ps1'', \<lparr>d_vizier = ''II/349/ps1'', d_name = ''PanSTARRS DR1'', d_extra = None\<rparr>),
     (''gaiadr2'', \<lparr>d_vizier = ''I/345/gaia2'', d_name = ''Gaia DR2'',
        d_extra = Some [''E(BR/RP)'']\<rparr>),
     (''gaiaedr3'', \<lparr>d_vizier = ''I/350/gaiaedr3'', d_name = ''Gaia EDR3'', d_extra = None\<rparr>),
     (''gaiadr3syn'', \<lparr>d_vizier = ''I/360/syntphot'', d_name = ''Gaia EDR3'',
        d_extra = Some [''**'', ''_RAJ2000'', ''_DEJ2000'']\<rparr>),
     (''usnob1'', \<lparr>d_vizier = ''I/284/out'', d_name = ''USNO-B1'', d_extra = None\<rparr>),
     (''gsc'', \<lparr>d_vizier = ''I/271/out'', d_name = ''GSC 2.2'', d_extra = None\<rparr>),
     (''skymapper'', \<lparr>d_vizier = ''II/358/smss'', d_name = ''SkyMapper DR1.1'',
        d_extra = None\<rparr>),
     (''vsx'', \<lparr>d_vizier = ''B/vsx/vsx'', d_name = ''AAVSO VSX'', d_extra = None\<rparr>),
     (''apass'', \<lparr>d_vizier = ''II/336/apass9'', d_name = ''APASS DR9'', d_extra = None\<rparr>),
     (''sdss'', \<lparr>d_vizier = ''V/147/sdss12'', d_name = ''SDSS DR12'',
        d_extra = Some [''_RAJ2000'', ''_DEJ2000'']\<rparr>),
     (''atlas'', \<lparr>d_vizier = ''J/ApJ/867/105/refcat2'', d_name = ''ATLAS-REFCAT2'',
        d_extra = Some [''_RAJ2000'', ''_DEJ2000'', ''e_Gmag'', ''e_gmag'', ''e_rmag'',
                        ''e_imag'', ''e_zmag'', ''e_Jmag'', ''e_Kmag'']\<rparr>)]"

section \<open>Photometric augmentation\<close>

subsection \<open>Pan-STARRS and ATLAS-RefCat2\<close>

definition pB1 :: "real list" where
  "pB1 = [0.10339527794499666, -0.492149523946056, 1.2093816061394638, 0.061925048331498395]"
definition pB2 :: "real list" where
  "pB2 = [-0.2571974580267897, 0.9211495207523038, -0.8243222108864755, 0.0619250483314976]"
definition pV1 :: "real list" where
  "pV1 = [-0.011452922062676726, -0.00009949308251868327, -0.4650511584366353,
          -0.007076854914511554]"
definition pV2 :: "real list" where
  "pV2 = [0.012749150754020416, 0.057554580469724864, -0.09019328095355343,
          -0.007076854914511329]"
definition pR1 :: "real list" where
  "pR1 = [0.004905242602502597, -0.046545625824660514, 0.07830702317352654,
          -0.08438139204305026]"
definition pR2 :: "real list" where
  "pR2 = [-0.07782426914647306, 0.14090289318728444, -0.3634922073369279,
          -0.08438139204305031]"
definition pI1 :: "real list" where
  "pI1 = [-0.02274814414922734, 0.048462952908062046, -0.046965058282604985,
          -0.19478935830847588]"
definition pI2 :: "real list" where
  "pI2 = [0.025124060889537177, -0.048672562735374666, -1.199591061144479,
          -0.1947893583084762]"

text \<open>The colour indices \<open>cat['gmag'] - cat['rmag']\<close> and so on, as the source writes them.\<close>

definition g_r :: cexp where "g_r = e_sub (e_col ''gmag'') (e_col ''rmag'')"
definition r_i :: cexp where "r_i = e_sub (e_col ''rmag'') (e_col ''imag'')"
definition i_z :: cexp where "i_z = e_sub (e_col ''imag'') (e_col ''zmag'')"

definition augment_ps1 :: stmt where
  "augment_ps1 = run
    [assign ''B'' (e_add (e_add (e_col ''gmag'') (e_polyval pB1 g_r)) (e_polyval pB2 r_i)),
     assign ''V'' (e_add (e_add (e_col ''gmag'') (e_polyval pV1 g_r)) (e_polyval pV2 r_i)),
     assign ''R'' (e_add (e_add (e_col ''rmag'') (e_polyval pR1 g_r)) (e_polyval pR2 r_i)),
     assign ''I'' (e_add (e_add (e_col ''imag'') (e_polyval pI1 g_r)) (e_polyval pI2 i_z)),

     assign ''good'' (e_and (e_gt g_r (e_num (-0.5))) (e_lt g_r (e_num 2.5))),
     assign ''good'' (e_and (e_col ''good'')
                        (e_and (e_gt r_i (e_num (-0.5))) (e_lt r_i (e_num 2.0)))),
     assign ''good'' (e_and (e_col ''good'')
                        (e_and (e_gt i_z (e_num (-0.5))) (e_lt i_z (e_num 1.0)))),

     assign ''g_SDSS'' (e_add (e_add (e_add (e_col ''gmag'') (e_num 0.013))
                                (e_mul (e_num 0.145) g_r))
                          (e_mul (e_num 0.019) (e_pow g_r 2))),
     assign ''r_SDSS'' (e_add (e_add (e_sub (e_col ''rmag'') (e_num 0.001))
                                (e_mul (e_num 0.004) g_r))
                          (e_mul (e_num 0.007) (e_pow g_r 2))),
     assign ''i_SDSS'' (e_add (e_add (e_sub (e_col ''imag'') (e_num 0.005))
                                (e_mul (e_num 0.011) g_r))
                          (e_mul (e_num 0.010) (e_pow g_r 2))),
     assign ''z_SDSS'' (e_col ''zmag'')]"

subsection \<open>Gaia DR2\<close>

definition pB :: "real list" where
  "pB = [-0.05927724559795761, 0.4224326324292696, 0.626219707920836, -0.011211539139725953]"
definition pV :: "real list" where
  "pV = [0.0017624722901609662, 0.15671377090187089, 0.03123927839356175,
         0.041448557506784556]"
definition pR :: "real list" where
  "pR = [0.02045449129406191, 0.054005149296716175, -0.3135475489352255,
         0.020545083667168156]"
definition pI :: "real list" where
  "pI = [0.005092289380850884, 0.07027022935721515, -0.7025553064161775,
         -0.02747532184796779]"

definition pCB :: "real list" where
  "pCB = [876.4047401692277, 5.114021693079334, -2.7332873314449326, 0]"
definition pCV :: "real list" where
  "pCV = [98.03049528983964, 20.582521666713028, 0.8690079603974803, 0]"
definition pCR :: "real list" where
  "pCR = [347.42190542330945, 39.42482430363565, 0.8626828845232541, 0]"
definition pCI :: "real list" where
  "pCI = [79.4028706486939, 9.176899238787003, -0.7826315256072135, 0]"

text \<open>
  The correction of the G magnitude: \<open>gcorr\<close> starts as a copy of \<open>g\<close>, and three
  masked assignments overwrite it; every mask and every right-hand side reads \<open>g\<close>.
\<close>

definition gaia_gcorr :: "pyval \<Rightarrow> table \<Rightarrow> py_error + pyval" where
  "gaia_gcorr g t =
    (let m1 = e_and (e_gt (e_val g) (e_num 2)) (e_lt (e_val g) (e_num 6));
         m2 = e_and (e_gt (e_val g) (e_num 6)) (e_lt (e_val g) (e_num 16));
         m3 = e_gt (e_val g) (e_num 16);
         gcorr = g
     in
     bnd (e_add (e_sub (e_add (e_num (-0.047344)) (e_mul (e_num 1.16405) (e_index (e_val g) m1)))
                       (e_mul (e_num 0.046799) (e_pow (e_index (e_val g) m1) 2)))
                (e_mul (e_num 0.0035015) (e_pow (e_index (e_val g) m1) 3)) t) (\<lambda>v1.
     bnd (m1 t) (\<lambda>k1.
     bnd (mask_set gcorr k1 v1) (\<lambda>gcorr.
     bnd (e_sub (e_index (e_val g) m2)
                (e_mul (e_num 0.0032) (e_sub (e_index (e_val g) m2) (e_num 6))) t) (\<lambda>v2.
     bnd (m2 t) (\<lambda>k2.
     bnd (mask_set gcorr k2 v2) (\<lambda>gcorr.
     bnd (e_sub (e_index (e_val g) m3) (e_num 0.032) t) (\<lambda>v3.
     bnd (m3 t) (\<lambda>k3.
     mask_set gcorr k3 v3)))))))))"

definition augment_gaiadr2 :: stmt where
  "augment_gaiadr2 cat =
     bnd (e_col ''Gmag'' cat) (\<lambda>g.
     bnd (e_sub (e_col ''BPmag'') (e_col ''RPmag'') cat) (\<lambda>bp_rp_v.
     bnd (e_sub (e_col ''E_BR_RP_'')
                (e_polyval [-0.00445024, 0.0570293, -0.02810592, 1.20477819] (e_val bp_rp_v))
                cat) (\<lambda>Cstar_v.
     bnd (gaia_gcorr g cat) (\<lambda>g.
     (let g = e_val g; bp_rp = e_val bp_rp_v; Cstar = e_val Cstar_v;
          B_V = e_sub (e_col ''B'') (e_col ''V'')
      in run
       [assign ''B'' (e_add (e_add g (e_polyval pB bp_rp)) (e_polyval pCB Cstar)),
        assign ''V'' (e_add (e_add g (e_polyval pV bp_rp)) (e_polyval pCV Cstar)),
        assign ''R'' (e_add (e_add g (e_polyval pR bp_rp)) (e_polyval pCR Cstar)),
        assign ''I'' (e_add (e_add g (e_polyval pI bp_rp)) (e_polyval pCI Cstar)),

        assign ''gmag'' (e_sub (e_sub (e_sub (e_col ''B'') (e_num 0.108))
                                  (e_mul (e_num 0.485) B_V))
                           (e_mul (e_num 0.032) (e_pow B_V 2))),
        assign ''rmag'' (e_add (e_sub (e_add (e_col ''V'') (e_num 0.082))
                                  (e_mul (e_num 0.462) B_V))
                           (e_mul (e_num 0.041) (e_pow B_V 2))),

        assign ''g_SDSS'' (e_sub g
           (e_add (e_sub (e_sub (e_num 0.13518) (e_mul (e_num 0.46245) bp_rp))
                         (e_mul (e_num 0.25171) (e_pow bp_rp 2)))
                  (e_mul (e_num 0.021349) (e_pow bp_rp 3)))),
        assign ''r_SDSS'' (e_sub g
           (e_sub (e_sub (e_add (e_num (-0.12879)) (e_mul (e_num 0.24662) bp_rp))
                         (e_mul (e_num 0.027464) (e_pow bp_rp 2)))
                  (e_mul (e_num 0.049465) (e_pow bp_rp 3)))),
        assign ''i_SDSS'' (e_sub g
           (e_sub (e_add (e_num (-0.29676)) (e_mul (e_num 0.64728) bp_rp))
                  (e_mul (e_num 0.10141) (e_pow bp_rp 2))))]
       cat)))))"

subsection \<open>SkyMapper, APASS and the Gaia DR3 synthetic photometry\<close>

definition augment_skymapper :: stmt where
  "augment_skymapper =
     run (map (\<lambda>b. assign (b @ ''_PS1'') (e_col (b @ ''PSF'')))
              [''u'', ''g'', ''r'', ''i'', ''z''])"

definition augment_apass :: stmt where
  "augment_apass =
    (let g_r_mag = e_sub (e_col ''g_mag'') (e_col ''r_mag'') in
     run
      ([assign ''Rmag'' (e_sub (e_sub (e_sub (e_col ''r_mag'') (e_num 0.157))
                                  (e_mul (e_num 0.087) g_r_mag))
                           (e_mul (e_num 0.014) (e_pow g_r_mag 2))),
        assign ''e_Rmag'' (e_col ''e_r_mag''),
        assign ''Imag'' (e_sub (e_sub (e_sub (e_col ''i_mag'') (e_num 0.354))
                                  (e_mul (e_num 0.118) g_r_mag))
                           (e_mul (e_num 0.004) (e_pow g_r_mag 2))),
        assign ''e_Imag'' (e_col ''e_i_mag'')]
       @ map (\<lambda>b. assign b (e_col (b @ ''mag''))) [''B'', ''V'', ''R'', ''I'']))"

definition syn_bands :: "string list" where
  "syn_bands = [''U'', ''B'', ''V'', ''R'', ''I'', ''u'', ''g'', ''r'', ''i'', ''z'', ''y'']"

definition pg :: "real list" where
  "pg = [-0.030414391501015867, -0.09960002492299584, -0.002910024005294562]"
definition pr :: "real list" where
  "pr = [-0.009566553708653305, 0.014924591443344211, -0.003928147919030857]"
definition pi_ps1 :: "real list" where
  "pi_ps1 = [-0.010802807724098494, 0.01124900218746879, 0.01274293783734852]"
definition pz :: "real list" where
  "pz = [-0.0031896767661109523, 0.06537983414287968, 0.007695587806229381]"

definition syn_error :: "string \<Rightarrow> stmt" where
  "syn_error name =
     assign (''e_'' @ name @ ''mag'')
       (e_div (e_mul (e_div (e_num 2.5) (e_num (ln 10))) (e_col (''e_F'' @ name)))
              (e_col (''F'' @ name)))"

definition augment_gaiadr3syn :: stmt where
  "augment_gaiadr3syn =
     run (map syn_error syn_bands
          @ [assign ''g_ps1'' (e_add (e_col ''gmag'') (e_polyval pg g_r)),
             assign ''r_ps1'' (e_add (e_col ''rmag'') (e_polyval pr g_r)),
             assign ''i_ps1'' (e_add (e_col ''imag'') (e_polyval pi_ps1 g_r)),
             assign ''z_ps1'' (e_add (e_col ''zmag'') (e_polyval pz g_r))])"

text \<open>The chain of \<open>if\<close>/\<open>elif\<close> on the catalogue's short name.\<close>

definition augment :: "string \<Rightarrow> stmt" where
  "augment catalog cat =
     (if catalog = ''ps1'' \<or> catalog = ''atlas'' then augment_ps1 cat
      else if catalog = ''gaiadr2'' then augment_gaiadr2 cat
      else if catalog = ''skymapper'' then augment_skymapper cat
      else if catalog = ''apass'' then augment_apass cat
      else if catalog = ''gaiadr3syn'' then augment_gaiadr3syn cat
      else Inr cat)"

section \<open>The remote services and the observable effects\<close>

text \<open>
  The module talks to four remote services and prints. The trace of a run lists these
  effects in the order in which they happen. A service answers a request with a result
  or an exception; its answer may depend on everything that happened before, so that a
  repeated request need not be answered the same way twice.
\<close>

record vizier_request =
  vz_row_limit :: int
  vz_columns :: "string list"
  vz_column_filters :: "(string \<times> string) list"
  vz_center :: "real \<times> real"
  vz_radius :: real
  vz_catalog :: string
  vz_cache :: bool

record xmatch_request =
  xm_cat1 :: table
  xm_cat2 :: string
  xm_max_distance :: real
  xm_colRA1 :: string
  xm_colDec1 :: string

record skybot_request =
  sb_center :: "real \<times> real"
  sb_radius :: real
  sb_epoch :: real

record ned_request =
  ned_center :: "real \<times> real"
  ned_radius :: real

datatype msg =
    MsgRequesting string "string list"
  | MsgCenter real real real
  | MsgFilters "(string \<times> string) list"
  | MsgGot nat nat
  | MsgError string

datatype event =
    Printed msg
  | Called msg
  | VizierQuery vizier_request
  | XMatchQuery xmatch_request
  | SkybotQuery skybot_request
  | NedQuery ned_request

type_synonym world = "event list"

text \<open>
  The environment: the four services, the constructor of an epoch from the \<open>time\<close>
  argument, and the two functions of the package's \<open>astrometry\<close> module that
  \<open>xmatch_skybot\<close> calls. \<open>get_objects_center\<close> gives the centre and the radius of the
  object list; \<open>spherical_match\<close> gives the parallel index lists of the matched pairs
  and their distances.
\<close>

type_synonym time_arg = "real option"

record env =
  vizier_query_region :: "world \<Rightarrow> vizier_request \<Rightarrow> py_error + table list option"
  xmatch_query :: "world \<Rightarrow> xmatch_request \<Rightarrow> py_error + table"
  skybot_cone_search :: "world \<Rightarrow> skybot_request \<Rightarrow> py_error + table"
  ned_query_region :: "world \<Rightarrow> ned_request \<Rightarrow> py_error + table option"
  mk_time :: "time_arg \<Rightarrow> py_error + real"
  get_objects_center :: "table \<Rightarrow> py_error + real \<times> real \<times> real"
  spherical_match ::
    "column \<Rightarrow> column \<Rightarrow> column \<Rightarrow> column \<Rightarrow> real \<Rightarrow> py_error + nat list \<times> nat list \<times> real list"

text \<open>
  \<open>SkyCoord(ra, dec, unit='deg')\<close> refuses a latitude outside of \<open>[-90, 90]\<close>.
\<close>

definition SkyCoord :: "real \<Rightarrow> real \<Rightarrow> py_error + real \<times> real" where
  "SkyCoord ra dec = (if -90 \<le> dec \<and> dec \<le> 90 then Inr (ra, dec) else Inl ValueError)"

text \<open>
  \<open>verbose\<close> is \<open>False\<close>, \<open>True\<close> or a \<open>print\<close>-like function; \<open>log\<close> does nothing,
  prints, or calls that function.
\<close>

datatype verbose = VFalse | VTrue | VCallable

fun log_msg :: "verbose \<Rightarrow> msg \<Rightarrow> world \<Rightarrow> world" where
  "log_msg VFalse m w = w"
| "log_msg VTrue m w = w @ [Printed m]"
| "log_msg VCallable m w = w @ [Called m]"

section \<open>get_cat_vizier\<close>

text \<open>One \<open>vizier.query_region\<close> call: the coordinate is built, then the service is asked.\<close>

definition query_region ::
  "env \<Rightarrow> vizier_request \<Rightarrow> real \<Rightarrow> real \<Rightarrow> world \<Rightarrow> (py_error + table list option) \<times> world"
where
  "query_region env rq ra0 dec0 w =
     (case SkyCoord ra0 dec0 of
        Inl e \<Rightarrow> (Inl e, w)
      | Inr c \<Rightarrow>
          (let rq' = rq\<lparr>vz_center := c\<rparr>
           in (vizier_query_region env w rq', w @ [VizierQuery rq'])))"

text \<open>\<open>not cats or not len(cats) == 1\<close>\<close>

fun not_single :: "table list option \<Rightarrow> bool" where
  "not_single None = True"
| "not_single (Some cats) = (cats = [] \<or> \<not> length cats = 1)"

text \<open>The optional renaming of the computed coordinate columns.\<close>

definition fix_radec :: stmt where
  "fix_radec cat =
     (if ''_RAJ2000'' \<in> set (keys cat) \<and> ''_DEJ2000'' \<in> set (keys cat)
         \<and> \<not> ''RAJ2000'' \<in> set (keys cat)
      then rename_columns cat [(''_RAJ2000'', ''RAJ2000''), (''_DEJ2000'', ''DEJ2000'')]
      else Inr cat)"

text \<open>Everything after the retrieval: from \<open>cat = cats[0]\<close> to \<open>return cat\<close>.\<close>

definition finish_cat ::
  "string \<Rightarrow> string \<Rightarrow> string \<Rightarrow> verbose \<Rightarrow> table list option \<Rightarrow> world
     \<Rightarrow> (py_error + table option) \<times> world"
where
  "finish_cat catalog vizier_id name verbose cats w =
     (case cats of
        None \<Rightarrow> (Inl TypeError, w)
      | Some [] \<Rightarrow> (Inl IndexError, w)
      | Some (cat # _) \<Rightarrow>
          (let cat = cat\<lparr>meta := dict_put ''vizier_id'' vizier_id (meta cat)\<rparr>;
               cat = cat\<lparr>meta := dict_put ''name'' name (meta cat)\<rparr>;
               w = log_msg verbose (MsgGot (tlen cat) (length (keys cat))) w
           in (bnd (fix_radec cat) (\<lambda>cat.
               bnd (augment catalog cat) (\<lambda>cat. Inr (Some cat))), w)))"

text \<open>
  The resolution of the catalogue selector: the remote identifier, the display name and
  the requested columns.
\<close>

definition resolve :: "string \<Rightarrow> string list \<Rightarrow> string \<times> string \<times> string list" where
  "resolve catalog extra =
    (let base = [''*'', ''RAJ2000'', ''DEJ2000'', ''e_RAJ2000'', ''e_DEJ2000''] in
     case map_of catalogs catalog of
       Some d \<Rightarrow> (d_vizier d, d_name d,
                  base @ extra @ (case d_extra d of Some xs \<Rightarrow> xs | None \<Rightarrow> []))
     | None \<Rightarrow> (catalog, catalog, base @ extra))"

text \<open>The three messages before the query.\<close>

definition announce ::
  "verbose \<Rightarrow> string \<Rightarrow> string list \<Rightarrow> real \<Rightarrow> real \<Rightarrow> real \<Rightarrow> (string \<times> string) list \<Rightarrow> world \<Rightarrow> world"
where
  "announce verbose vizier_id columns ra0 dec0 sr0 filters w =
    (let w = log_msg verbose (MsgRequesting vizier_id columns) w;
         w = log_msg verbose (MsgCenter ra0 dec0 sr0) w
     in log_msg verbose (MsgFilters filters) w)"

text \<open>
  The request of \<open>Vizier(row_limit, columns, column_filters).query_region(centre, radius,
  catalog, cache)\<close>; the cache is used unless the call says otherwise.
\<close>

definition Vizier ::
  "int \<Rightarrow> string list \<Rightarrow> (string \<times> string) list \<Rightarrow> real \<Rightarrow> real \<Rightarrow> real \<Rightarrow> string \<Rightarrow> vizier_request"
where
  "Vizier limit columns filters ra0 dec0 sr0 vizier_id =
     \<lparr>vz_row_limit = limit, vz_columns = columns, vz_column_filters = filters,
      vz_center = (ra0, dec0), vz_radius = sr0, vz_catalog = vizier_id, vz_cache = True\<rparr>"

definition get_cat_vizier ::
  "env \<Rightarrow> real \<Rightarrow> real \<Rightarrow> real \<Rightarrow> string \<Rightarrow> int \<Rightarrow> (string \<times> string) list \<Rightarrow> string list
     \<Rightarrow> verbose \<Rightarrow> world \<Rightarrow> (py_error + table option) \<times> world"
where
  "get_cat_vizier env ra0 dec0 sr0 catalog limit filters extra verbose w =
    (let (vizier_id, name, columns) = resolve catalog extra;
         w = announce verbose vizier_id columns ra0 dec0 sr0 filters w;
         vizier = Vizier limit columns filters ra0 dec0 sr0 vizier_id
     in case query_region env vizier ra0 dec0 w of
          (Inl e, w) \<Rightarrow> (Inl e, w)
        | (Inr cats, w) \<Rightarrow>
            if not_single cats then
              (case query_region env (vizier\<lparr>vz_cache := False\<rparr>) ra0 dec0 w of
                 (Inl e, w) \<Rightarrow> (Inl e, w)
               | (Inr cats, w) \<Rightarrow>
                   if not_single cats then (Inr None, w @ [Printed (MsgError catalog)])
                   else finish_cat catalog vizier_id name verbose cats w)
            else finish_cat catalog vizier_id name verbose cats w)"

section \<open>xmatch_objects\<close>


section \<open>xmatch_skybot\<close>

text \<open>Integer-array indexing \<open>x[idx]\<close> and assignment \<open>x[idx] = values\<close>.\<close>

fun take_idx :: "'a list \<Rightarrow> nat list \<Rightarrow> py_error + 'a list" where
  "take_idx xs [] = Inr []"
| "take_idx xs (i # idx) =
     (if i < length xs then bnd (take_idx xs idx) (\<lambda>ys. Inr (xs ! i # ys)) else Inl IndexError)"

fun put_each :: "'a list \<Rightarrow> nat list \<Rightarrow> 'a list \<Rightarrow> 'a list" where
  "put_each xs (i # idx) (v # vs) = put_each (xs[i := v]) idx vs"
| "put_each xs _ _ = xs"

definition put_idx :: "'a list \<Rightarrow> nat list \<Rightarrow> 'a list \<Rightarrow> py_error + 'a list" where
  "put_idx xs idx vs =
     (if \<not> list_all (\<lambda>i. i < length xs) idx then Inl IndexError
      else if length vs = length idx then Inr (put_each xs idx vs)
      else if length vs = 1 then Inr (put_each xs idx (replicate (length idx) (hd vs)))
      else Inl ValueError)"

text \<open>
  The \<open>try\<close> block: the coordinate, the radius and the epoch are evaluated, then the
  cone search is sent.
\<close>

definition cone_search ::
  "env \<Rightarrow> real \<Rightarrow> real \<Rightarrow> real \<Rightarrow> real \<Rightarrow> time_arg \<Rightarrow> world \<Rightarrow> (py_error + table) \<times> world"
where
  "cone_search env ra0 dec0 sr0 sr time w =
     (case SkyCoord ra0 dec0 of
        Inl e \<Rightarrow> (Inl e, w)
      | Inr c \<Rightarrow>
          (let radius = sr0 + 2.0 * sr in
           case mk_time env time of
             Inl e \<Rightarrow> (Inl e, w)
           | Inr epoch \<Rightarrow>
               (let rq = \<lparr>sb_center = c, sb_radius = radius, sb_epoch = epoch\<rparr>
                in (skybot_cone_search env w rq, w @ [SkybotQuery rq]))))"

text \<open>
  The lines after the \<open>try\<close> block. The match is made with the tolerance \<open>10/3600\<close>.
  The identifier column is created from a scalar, which needs a first identifier in
  \<open>obj\<close> for its type and a table with rows to be broadcast to, and all of it is masked
  at once. The identifiers of the matched objects are then stored at the matched rows,
  one after the other, which unmasks these rows. The last line of the source unmasks a
  copy of the matched entries and changes nothing. The type of the identifiers is not
  modelled.
\<close>

definition annotate :: "env \<Rightarrow> table \<Rightarrow> table \<Rightarrow> string \<Rightarrow> string \<Rightarrow> string \<Rightarrow> py_error + table" where
  "annotate env obj xcat col_ra col_dec col_id =
     bnd (getitem obj col_ra) (\<lambda>ra.
     bnd (getitem obj col_dec) (\<lambda>dec.
     bnd (getitem xcat ''RA'') (\<lambda>cra.
     bnd (getitem xcat ''DEC'') (\<lambda>cdec.
     bnd (spherical_match env ra dec cra cdec (10 / 3600)) (\<lambda>(oidx, cidx, dist).
     bnd (getitem obj col_id) (\<lambda>ids.
     bnd (take_idx (cells ids) [0]) (\<lambda>first.
     bnd (setitem_scalar xcat col_id Masked) (\<lambda>xcat.
     bnd (take_idx (cells ids) oidx) (\<lambda>values.
     bnd (getitem xcat col_id) (\<lambda>c.
     bnd (put_idx (cells c) cidx values) (\<lambda>cs.
     bnd (take_idx cs cidx) (\<lambda>unmasked_copy.
     setitem xcat col_id (MaskedCol cs)))))))))))))"

definition xmatch_skybot ::
  "env \<Rightarrow> table \<Rightarrow> real \<Rightarrow> time_arg \<Rightarrow> string \<Rightarrow> string \<Rightarrow> string \<Rightarrow> world
     \<Rightarrow> (py_error + table option) \<times> world"
where
  "xmatch_skybot env obj sr time col_ra col_dec col_id w =
     (case get_objects_center env obj of
        Inl e \<Rightarrow> (Inl e, w)
      | Inr (ra0, dec0, sr0) \<Rightarrow>
          (case cone_search env ra0 dec0 sr0 sr time w of
             (Inl e, w) \<Rightarrow>
               if except_matches [RuntimeError, KeyError, ConnectionError, OSError] e
               then (Inr None, w)
               else (Inl e, w)
           | (Inr xcat, w) \<Rightarrow>
               (bnd (annotate env obj xcat col_ra col_dec col_id) (\<lambda>xcat. Inr (Some xcat)), w)))"

section \<open>xmatch_ned\<close>

text \<open>\<open>row[name]\<close> for the row of index \<open>i\<close>.\<close>

definition row_get :: "table \<Rightarrow> nat \<Rightarrow> string \<Rightarrow> py_error + cell" where
  "row_get t i name =
     bnd (getitem t name) (\<lambda>c. if i < col_len c then Inr (cells c ! i) else Inl IndexError)"

text \<open>A coordinate built from two cells; the cells have to be numbers.\<close>

fun cell_num :: "cell \<Rightarrow> py_error + real" where
  "cell_num (Num x) = Inr x"
| "cell_num _ = Inl TypeError"

text \<open>The truth value of a query result: \<open>None\<close> and a table without rows are false.\<close>

fun truthy :: "table option \<Rightarrow> bool" where
  "truthy None = False"
| "truthy (Some res) = (tlen res \<noteq> 0)"

text \<open>
  \<open>vstack(tables, join_type='exact', metadata_conflicts='silent')\<close>: a single table is
  returned as it is; several tables must have the same column names, and the columns of
  one name must be of one kind (a masked column joins any kind). The columns follow the
  order of the first table; of two metadata values under one key the later one stays.
\<close>

fun col_append :: "column \<Rightarrow> column \<Rightarrow> py_error + column" where
  "col_append (NumCol xs) (NumCol ys) = Inr (NumCol (xs @ ys))"
| "col_append (BoolCol xs) (BoolCol ys) = Inr (BoolCol (xs @ ys))"
| "col_append (StrCol xs) (StrCol ys) = Inr (StrCol (xs @ ys))"
| "col_append (MaskedCol xs) c = Inr (MaskedCol (xs @ cells c))"
| "col_append c (MaskedCol ys) = Inr (MaskedCol (cells c @ ys))"
| "col_append _ _ = Inl TableMergeError"

fun stack_cols :: "(string \<times> column) list \<Rightarrow> table \<Rightarrow> py_error + (string \<times> column) list" where
  "stack_cols [] t = Inr []"
| "stack_cols ((k, c) # kcs) t =
     bnd (getitem t k) (\<lambda>c'.
     bnd (col_append c c') (\<lambda>c''.
     bnd (stack_cols kcs t) (\<lambda>rest. Inr ((k, c'') # rest))))"

definition stack2 :: "table \<Rightarrow> table \<Rightarrow> py_error + table" where
  "stack2 a b =
     (if set (keys a) \<noteq> set (keys b) then Inl TableMergeError
      else bnd (stack_cols (cols a) b) (\<lambda>cs.
           Inr \<lparr>cols = cs, meta = fold (\<lambda>(k, v). dict_put k v) (meta b) (meta a)\<rparr>))"

fun stack_all :: "table \<Rightarrow> table list \<Rightarrow> py_error + table" where
  "stack_all acc [] = Inr acc"
| "stack_all acc (t # ts) = bnd (stack2 acc t) (\<lambda>acc'. stack_all acc' ts)"

fun vstack :: "table list \<Rightarrow> py_error + table" where
  "vstack [] = Inl ValueError"
| "vstack [t] = Inr t"
| "vstack (t # ts) = stack_all t ts"

text \<open>\<open>res['id'] = value\<close> on a query result.\<close>

fun stamp :: "table option \<Rightarrow> cell \<Rightarrow> py_error + table" where
  "stamp None v = Inl TypeError"
| "stamp (Some res) v = setitem_scalar res ''id'' v"

text \<open>
  The loop over the rows of \<open>obj\<close>, one query each; \<open>xcat\<close> collects the stamped answers.
\<close>

fun ned_loop ::
  "env \<Rightarrow> table \<Rightarrow> real \<Rightarrow> string \<Rightarrow> string \<Rightarrow> string \<Rightarrow> nat list \<Rightarrow> table list \<Rightarrow> world
     \<Rightarrow> (py_error + table list) \<times> world"
where
  "ned_loop env obj sr col_ra col_dec col_id [] xcat w = (Inr xcat, w)"
| "ned_loop env obj sr col_ra col_dec col_id (row # rows) xcat w =
     (case bnd (row_get obj row col_ra) (\<lambda>ra.
           bnd (row_get obj row col_dec) (\<lambda>dec.
           bnd (cell_num ra) (\<lambda>ra.
           bnd (cell_num dec) (\<lambda>dec. SkyCoord ra dec)))) of
        Inl e \<Rightarrow> (Inl e, w)
      | Inr c \<Rightarrow>
          (let rq = \<lparr>ned_center = c, ned_radius = sr\<rparr>;
               answer = ned_query_region env w rq;
               w = w @ [NedQuery rq]
           in case answer of
                Inl e \<Rightarrow> (Inl e, w)
              | Inr res \<Rightarrow>
                  if truthy res then
                    (case bnd (row_get obj row col_id) (stamp res) of
                       Inl e \<Rightarrow> (Inl e, w)
                     | Inr res \<Rightarrow>
                         ned_loop env obj sr col_ra col_dec col_id rows (xcat @ [res]) w)
                  else ned_loop env obj sr col_ra col_dec col_id rows xcat w))"

text \<open>The result is a list or a table.\<close>

datatype ned_result = PyList "table list" | PyTable table

definition xmatch_ned ::
  "env \<Rightarrow> table \<Rightarrow> real \<Rightarrow> string \<Rightarrow> string \<Rightarrow> string \<Rightarrow> world \<Rightarrow> (py_error + ned_result) \<times> world"
where
  "xmatch_ned env obj sr col_ra col_dec col_id w =
     (case ned_loop env obj sr col_ra col_dec col_id [0..<tlen obj] [] w of
        (Inl e, w) \<Rightarrow> (Inl e, w)
      | (Inr xcat, w) \<Rightarrow>
          if xcat \<noteq> [] then (bnd (vstack xcat) (\<lambda>t. Inr (PyTable t)), w)
          else (Inr (PyList xcat), w))"

section \<open>The matching of the specification\<close>

text \<open>
  The function \<open>astrometry.spherical_match\<close> is not part of the source at hand. The
  definitions of this section follow what the specification says about it.
\<close>

text \<open>
  Modelled from the spec: the great-circle distance of two positions, all in degrees
  (the matching of \<open>astrometry.spherical_match\<close> is by this distance).
\<close>

definition great_circle :: "real \<Rightarrow> real \<Rightarrow> real \<Rightarrow> real \<Rightarrow> real" where
  "great_circle ra1 dec1 ra2 dec2 =
     (let rad = (\<lambda>x. x * pi / 180) in
      arccos (sin (rad dec1) * sin (rad dec2)
              + cos (rad dec1) * cos (rad dec2) * cos (rad ra1 - rad ra2)) * 180 / pi)"

text \<open>
  Modelled from the spec: the nearest of a list of indexed distances (the first of several
  at the same distance), and the nearest position of the first list to a given position,
  if it is within the tolerance.
\<close>

fun nearest :: "(nat \<times> real) list \<Rightarrow> (nat \<times> real) option" where
  "nearest [] = None"
| "nearest ((i, d) # rest) =
     (case nearest rest of
        None \<Rightarrow> Some (i, d)
      | Some (j, d') \<Rightarrow> if d \<le> d' then Some (i, d) else Some (j, d'))"

definition nearest_within ::
  "real list \<Rightarrow> real list \<Rightarrow> real \<Rightarrow> real \<Rightarrow> real \<Rightarrow> (nat \<times> real) option" where
  "nearest_within ra1 dec1 ra dec sr =
     (case nearest (map (\<lambda>i. (i, great_circle (ra1 ! i) (dec1 ! i) ra dec))
                        [0..<min (length ra1) (length dec1)]) of
        None \<Rightarrow> None
      | Some (i, d) \<Rightarrow> if d \<le> sr then Some (i, d) else None)"

text \<open>
  Modelled from the spec: \<open>astrometry.spherical_match\<close> as nearest-neighbour matching. A
  position of the second list is matched to the nearest position of the first list,
  provided that their great-circle distance is within the tolerance; the result is the
  parallel lists of the indices into the first list, the indices into the second list
  and the distances.
\<close>

fun spherical_match_spec ::
  "column \<Rightarrow> column \<Rightarrow> column \<Rightarrow> column \<Rightarrow> real \<Rightarrow> py_error + nat list \<times> nat list \<times> real list"
where
  "spherical_match_spec (NumCol ra1) (NumCol dec1) (NumCol ra2) (NumCol dec2) sr =
     (let found = concat (map (\<lambda>j. case nearest_within ra1 dec1 (ra2 ! j) (dec2 ! j) sr of
                                       None \<Rightarrow> []
                                     | Some (i, d) \<Rightarrow> [(i, j, d)])
                              [0..<min (length ra2) (length dec2)])
      in Inr (map fst found, map (fst \<circ> snd) found, map (snd \<circ> snd) found))"
| "spherical_match_spec _ _ _ _ sr = Inl TypeError"

section \<open>The loop of xmatch_ned in the words of the specification\<close>

text \<open>
  One request per object, in the order of the rows; the answers of the service to these
  requests, asked one after the other; the answers that are kept, which are the non-empty
  ones, each stamped with the identifier of its object in every row of the column \<open>id\<close>;
  and the identifiers that the rows of the concatenated output carry.
\<close>

definition ned_requests :: "real list \<Rightarrow> real list \<Rightarrow> real \<Rightarrow> ned_request list" where
  "ned_requests ras decs sr = map2 (\<lambda>ra dec. \<lparr>ned_center = (ra, dec), ned_radius = sr\<rparr>) ras decs"

fun ned_answers :: "env \<Rightarrow> ned_request list \<Rightarrow> world \<Rightarrow> (py_error + table option) list" where
  "ned_answers env [] w = []"
| "ned_answers env (rq # rqs) w =
     ned_query_region env w rq # ned_answers env rqs (w @ [NedQuery rq])"

definition stamped :: "cell \<Rightarrow> table \<Rightarrow> table" where
  "stamped v res = res\<lparr>cols := dict_put ''id'' (broadcast (tlen res) v) (cols res)\<rparr>"

fun ned_kept :: "cell list \<Rightarrow> (py_error + table option) list \<Rightarrow> table list" where
  "ned_kept (v # vs) (Inr (Some res) # answers) =
     (if tlen res \<noteq> 0 then [stamped v res] else []) @ ned_kept vs answers"
| "ned_kept (v # vs) (_ # answers) = ned_kept vs answers"
| "ned_kept _ _ = []"

fun ned_ids :: "cell list \<Rightarrow> (py_error + table option) list \<Rightarrow> cell list" where
  "ned_ids (v # vs) (Inr (Some res) # answers) = replicate (tlen res) v @ ned_ids vs answers"
| "ned_ids (v # vs) (_ # answers) = ned_ids vs answers"
| "ned_ids _ _ = []"

text \<open>The cells of a column of a table; no cell when the column is not there.\<close>

definition col_cells :: "table \<Rightarrow> string \<Rightarrow> cell list" where
  "col_cells t name = (case map_of (cols t) name of Some c \<Rightarrow> cells c | None \<Rightarrow> [])"

text \<open>
  \<open>ned_nonempty env h ev\<close>: the event \<open>ev\<close>, happening after the history \<open>h\<close>, is a
  query that NED answers with a table that has rows.
\<close>

definition ned_nonempty :: "env \<Rightarrow> world \<Rightarrow> event \<Rightarrow> bool" where
  "ned_nonempty env h ev =
     (case ev of
        NedQuery rq \<Rightarrow> (case ned_query_region env h rq of Inr res \<Rightarrow> truthy res | Inl e \<Rightarrow> False)
      | _ \<Rightarrow> False)"

section \<open>The photometric formulas in the words of the specification\<close>

text \<open>
  The correction of the Gaia DR2 G magnitude, one magnitude at a time: three disjoint
  open ranges of brightness, each with its polynomial, and no change anywhere else.
\<close>

definition gcorr_spec :: "real \<Rightarrow> real" where
  "gcorr_spec G =
     (if 2 < G \<and> G < 6 then - 0.047344 + 1.16405 * G - 0.046799 * G ^ 2 + 0.0035015 * G ^ 3
      else if 6 < G \<and> G < 16 then G - 0.0032 * (G - 6)
      else if 16 < G then G - 0.032
      else G)"

text \<open>
  A Johnson-Cousins magnitude from Gaia DR2: the corrected G magnitude plus the colour
  term in \<open>BP - RP\<close> plus the term in the excess of the flux excess factor.
\<close>

definition gaia_fit :: "real list \<Rightarrow> real list \<Rightarrow> real \<Rightarrow> real \<Rightarrow> real \<Rightarrow> real \<Rightarrow> real" where
  "gaia_fit p q G BP RP E =
     gcorr_spec G + polyval p (BP - RP)
       + polyval q (E - polyval [-0.00445024, 0.0570293, -0.02810592, 1.20477819] (BP - RP))"

section \<open>Notions used in the statements\<close>

text \<open>
  \<open>retrieved env w w' cat\<close>: in the part of the trace \<open>w'\<close> that follows \<open>w\<close> there is a
  Vizier query that was answered with exactly the one table \<open>cat\<close>.
\<close>

definition retrieved :: "env \<Rightarrow> world \<Rightarrow> world \<Rightarrow> table \<Rightarrow> bool" where
  "retrieved env w w' cat =
     (\<exists>h rq rest. w' = h @ VizierQuery rq # rest \<and> length w \<le> length h
        \<and> vizier_query_region env h rq = Inr (Some [cat]))"

text \<open>The table of a result, for results that are a table.\<close>

definition the_table :: "py_error + table option \<Rightarrow> table" where
  "the_table r = (case r of Inr (Some t) \<Rightarrow> t | _ \<Rightarrow> \<lparr>cols = [], meta = []\<rparr>)"

text \<open>
  A statement preserves a column when it leaves it as it is, and keeps the length when
  it leaves the number of rows of a table with columns as it is.
\<close>

definition keeps_len :: "stmt \<Rightarrow> bool" where
  "keeps_len s = (\<forall>t t'. s t = Inr t' \<longrightarrow> cols t \<noteq> [] \<longrightarrow> tlen t' = tlen t \<and> cols t' \<noteq> [])"

definition preserves :: "string \<Rightarrow> stmt \<Rightarrow> bool" where
  "preserves k s = (\<forall>t t'. s t = Inr t' \<longrightarrow> getitem t' k = getitem t k)"


text \<open>The Vizier requests of a trace, in the order in which they were sent.\<close>

definition vizier_queries :: "world \<Rightarrow> vizier_request list" where
  "vizier_queries w = concat (map (\<lambda>ev. case ev of VizierQuery rq \<Rightarrow> [rq] | _ \<Rightarrow> []) w)"





text \<open>The columns after the renaming of the computed coordinate columns.\<close>

definition radec_renamed :: "(string \<times> column) list \<Rightarrow> (string \<times> column) list" where
  "radec_renamed kcs =
     map (\<lambda>(k, c). (if k = ''_RAJ2000'' then ''RAJ2000''
                     else if k = ''_DEJ2000'' then ''DEJ2000'' else k, c)) kcs"

section \<open>Concrete environments and inputs\<close>

text \<open>
  An environment in which Vizier answers with an empty list of tables and each of the
  other services raises an exception.
\<close>

definition env_offline :: env where
  "env_offline =
     \<lparr>vizier_query_region = (\<lambda>w rq. Inr (Some [])),
      xmatch_query = (\<lambda>w rq. Inl RemoteServiceError),
      skybot_cone_search = (\<lambda>w rq. Inl ConnectionResetError),
      ned_query_region = (\<lambda>w rq. Inl TimeoutError),
      mk_time = (\<lambda>t. case t of None \<Rightarrow> Inl ValueError | Some jd \<Rightarrow> Inr jd),
      get_objects_center = (\<lambda>t. Inr (0, 0, 1)),
      spherical_match = (\<lambda>ra dec cra cdec sr. Inr ([], [], []))\<rparr>"

text \<open>An environment in which every service raises, and a list of one object.\<close>

definition env_down :: env where
  "env_down =
     \<lparr>vizier_query_region = (\<lambda>w rq. Inl ConnectionError),
      xmatch_query = (\<lambda>w rq. Inl RemoteServiceError),
      skybot_cone_search = (\<lambda>w rq. Inl ConnectionResetError),
      ned_query_region = (\<lambda>w rq. Inl TimeoutError),
      mk_time = (\<lambda>t. case t of None \<Rightarrow> Inl ValueError | Some jd \<Rightarrow> Inr jd),
      get_objects_center = (\<lambda>t. Inr (0, 0, 1)),
      spherical_match = (\<lambda>ra dec cra cdec sr. Inr ([], [], []))\<rparr>"

definition obj1 :: table where
  "obj1 = \<lparr>cols = [(''ra'', NumCol [0]), (''dec'', NumCol [0]), (''id'', NumCol [7])],
           meta = []\<rparr>"

text \<open>
  An environment for \<open>xmatch_skybot\<close>: the cone search answers with one ephemeris row,
  five arc seconds east of the object of \<open>obj1\<close>, and the matching is the one of the
  specification.
\<close>

definition ephemeris1 :: table where
  "ephemeris1 = \<lparr>cols = [(''Name'', StrCol [''Ceres'']), (''RA'', NumCol [5 / 3600]),
                         (''DEC'', NumCol [0])], meta = []\<rparr>"

definition env_sky :: env where
  "env_sky =
     \<lparr>vizier_query_region = (\<lambda>w rq. Inr (Some [])),
      xmatch_query = (\<lambda>w rq. Inl RemoteServiceError),
      skybot_cone_search = (\<lambda>w rq. Inr ephemeris1),
      ned_query_region = (\<lambda>w rq. Inr None),
      mk_time = (\<lambda>t. case t of None \<Rightarrow> Inl ValueError | Some jd \<Rightarrow> Inr jd),
      get_objects_center = (\<lambda>t. Inr (0, 0, 1)),
      spherical_match = spherical_match_spec\<rparr>"

text \<open>
  An environment for \<open>xmatch_ned\<close>: NED knows two galaxies near right ascension 10 and
  one near 40, answers with a table without rows at 20 and with \<open>None\<close> at 30.
\<close>

definition galaxies2 :: table where
  "galaxies2 = \<lparr>cols = [(''Object Name'', StrCol [''NGC 1'', ''NGC 2'']),
                         (''Redshift'', NumCol [0.01, 0.02])], meta = []\<rparr>"

definition galaxy1 :: table where
  "galaxy1 = \<lparr>cols = [(''Object Name'', StrCol [''IC 10'']), (''Redshift'', NumCol [0.03])],
              meta = []\<rparr>"

definition no_rows :: table where
  "no_rows = \<lparr>cols = [(''Object Name'', StrCol []), (''Redshift'', NumCol [])], meta = []\<rparr>"

definition env_ned :: env where
  "env_ned =
     \<lparr>vizier_query_region = (\<lambda>w rq. Inr (Some [])),
      xmatch_query = (\<lambda>w rq. Inl RemoteServiceError),
      skybot_cone_search = (\<lambda>w rq. Inl RuntimeError),
      ned_query_region = (\<lambda>w rq.
         if fst (ned_center rq) = 10 then Inr (Some galaxies2)
         else if fst (ned_center rq) = 20 then Inr (Some no_rows)
         else if fst (ned_center rq) = 30 then Inr None
         else Inr (Some galaxy1)),
      mk_time = (\<lambda>t. case t of None \<Rightarrow> Inl ValueError | Some jd \<Rightarrow> Inr jd),
      get_objects_center = (\<lambda>t. Inr (25, 0, 15)),
      spherical_match = (\<lambda>ra dec cra cdec sr. Inr ([], [], []))\<rparr>"

definition obj4 :: table where
  "obj4 = \<lparr>cols = [(''ra'', NumCol [10, 20, 30, 40]), (''dec'', NumCol [0, 0, 0, 0]),
                    (''id'', NumCol [1, 2, 3, 4])], meta = []\<rparr>"

definition obj_quiet :: table where
  "obj_quiet = \<lparr>cols = [(''ra'', NumCol [20, 30]), (''dec'', NumCol [0, 0]),
                    (''id'', NumCol [2, 3])], meta = []\<rparr>"

text \<open>
  \<open>vizier_only cat\<close>: Vizier answers every query with the one table \<open>cat\<close>; the other
  services find nothing or fail.
\<close>

definition vizier_only :: "table \<Rightarrow> env" where
  "vizier_only cat =
     \<lparr>vizier_query_region = (\<lambda>w rq. Inr (Some [cat])),
      xmatch_query = (\<lambda>w rq. Inl RemoteServiceError),
      skybot_cone_search = (\<lambda>w rq. Inl RuntimeError),
      ned_query_region = (\<lambda>w rq. Inr None),
      mk_time = (\<lambda>t. case t of None \<Rightarrow> Inl ValueError | Some jd \<Rightarrow> Inr jd),
      get_objects_center = (\<lambda>t. Inr (0, 0, 1)),
      spherical_match = (\<lambda>ra dec cra cdec sr. Inr ([], [], []))\<rparr>"



definition gaia_stars :: table where
  "gaia_stars = \<lparr>cols = [(''Gmag'', NumCol [4, 6, 10, 20]), (''BPmag'', NumCol [0, 0, 0, 0]),
                          (''RPmag'', NumCol [0, 0, 0, 0]),
                          (''E_BR_RP_'', NumCol [1.20477819, 1.20477819, 1.20477819, 1.20477819])],
                  meta = []\<rparr>"

definition env_gaia :: env where
  "env_gaia = vizier_only gaia_stars"

text \<open>
  Two more tables of Vizier: an SDSS star with computed coordinate columns and no
  \<open>RAJ2000\<close>, and two stars of the Gaia DR3 synthetic photometry with a flux and a flux
  error in each of the eleven passbands.
\<close>

definition sdss_stars :: table where
  "sdss_stars = \<lparr>cols = [(''_RAJ2000'', NumCol [10.1]), (''_DEJ2000'', NumCol [20.1]),
                          (''RA_ICRS'', NumCol [10.1]), (''DE_ICRS'', NumCol [20.1]),
                          (''gmag'', NumCol [17.5])],
                  meta = [(''ID'', ''V_147_sdss12'')]\<rparr>"

definition env_sdss :: env where
  "env_sdss = vizier_only sdss_stars"



section \<open>Basic facts\<close>

lemma bnd_Inl [simp]: "bnd (Inl e) f = Inl e"
  by (simp add: bnd_def)

lemma bnd_Inr [simp]: "bnd (Inr x) f = f x"
  by (simp add: bnd_def)

lemma bnd_eq_Inr: "bnd m f = Inr y \<longleftrightarrow> (\<exists>x. m = Inr x \<and> f x = Inr y)"
  by (cases m) auto

lemma map_of_dict_put: "map_of (dict_put k v kvs) = (map_of kvs)(k \<mapsto> v)"
  by (induction kvs) (auto simp: fun_eq_iff)

lemma vizier_queries_append:
  "vizier_queries (a @ b) = vizier_queries a @ vizier_queries b"
  by (simp add: vizier_queries_def)

lemma vizier_queries_log_msg: "vizier_queries (log_msg v m w) = vizier_queries w"
  by (cases v) (simp_all add: vizier_queries_def)

lemma snd_finish_cat:
  "snd (finish_cat catalog vid name verbose cats w) =
     (case cats of Some (c # _) \<Rightarrow> log_msg verbose (MsgGot (tlen c) (length (keys c))) w
                 | _ \<Rightarrow> w)"
  by (auto simp: finish_cat_def Let_def keys_def tlen_def split: option.splits list.splits)

section \<open>The retry of the catalogue retrieval\<close>

text \<open>
  C6. Let the first Vizier query of \<open>get_cat_vizier\<close> (sent after the three optional
  messages, with the cache in use) be answered by something other than exactly one
  table. Then the function sends exactly one more Vizier query, the same request with
  the cache disabled. If this second query is again answered by something other than
  exactly one table, the function prints the error message for the catalogue and
  returns \<open>None\<close>; it does not raise.
\<close>

theorem get_cat_vizier_retries_once:
  assumes res: "resolve catalog extra = (vizier_id, name, columns)"
    and w0: "w0 = announce verbose vizier_id columns ra0 dec0 sr0 filters w"
    and rq: "rq = Vizier limit columns filters ra0 dec0 sr0 vizier_id"
    and dec: "-90 \<le> dec0" "dec0 \<le> 90"
    and first: "vizier_query_region env w0 rq = Inr cats1" "not_single cats1"
  shows "vizier_queries
           (snd (get_cat_vizier env ra0 dec0 sr0 catalog limit filters extra verbose w))
           = vizier_queries w @ [rq, rq\<lparr>vz_cache := False\<rparr>]
       \<and> vz_cache rq
       \<and> (\<forall>cats2.
            vizier_query_region env (w0 @ [VizierQuery rq]) (rq\<lparr>vz_cache := False\<rparr>)
              = Inr cats2 \<and> not_single cats2 \<longrightarrow>
            get_cat_vizier env ra0 dec0 sr0 catalog limit filters extra verbose w
              = (Inr None,
                 w0 @ [VizierQuery rq, VizierQuery (rq\<lparr>vz_cache := False\<rparr>),
                       Printed (MsgError catalog)]))"
proof -
  let ?rq2 = "rq\<lparr>vz_cache := False\<rparr>"
  let ?w1 = "w0 @ [VizierQuery rq]"
  have c: "rq\<lparr>vz_center := (ra0, dec0)\<rparr> = rq" "?rq2\<lparr>vz_center := (ra0, dec0)\<rparr> = ?rq2"
    by (simp_all add: rq Vizier_def)
  have q1: "query_region env rq ra0 dec0 w0 = (Inr cats1, ?w1)"
    using dec first c by (simp add: query_region_def SkyCoord_def Let_def)
  have q2: "query_region env ?rq2 ra0 dec0 ?w1
              = (vizier_query_region env ?w1 ?rq2, ?w1 @ [VizierQuery ?rq2])"
    using dec c by (simp add: query_region_def SkyCoord_def Let_def)
  have g: "get_cat_vizier env ra0 dec0 sr0 catalog limit filters extra verbose w =
            (case vizier_query_region env ?w1 ?rq2 of
               Inl e \<Rightarrow> (Inl e, ?w1 @ [VizierQuery ?rq2])
             | Inr cats \<Rightarrow>
                 if not_single cats
                 then (Inr None, (?w1 @ [VizierQuery ?rq2]) @ [Printed (MsgError catalog)])
                 else finish_cat catalog vizier_id name verbose cats (?w1 @ [VizierQuery ?rq2]))"
    using first(2) q1 q2
    by (simp add: get_cat_vizier_def res Let_def w0 [symmetric] rq [symmetric] split: sum.splits)
  have vw0: "vizier_queries w0 = vizier_queries w"
    by (simp add: w0 announce_def Let_def vizier_queries_log_msg)
  have a: "vizier_queries
             (snd (get_cat_vizier env ra0 dec0 sr0 catalog limit filters extra verbose w))
           = vizier_queries w @ [rq, ?rq2]"
    unfolding g
    by (auto simp: snd_finish_cat vizier_queries_append vizier_queries_log_msg vw0
                   vizier_queries_def [of "_ # _"]
             split: sum.splits option.splits list.splits)
  have b: "vz_cache rq" by (simp add: rq Vizier_def)
  from a b g show ?thesis by auto
qed

theorem get_cat_vizier_retries_once_witness:
  "get_cat_vizier env_offline 10 20 (1/2) ''ps1'' (-1) [] [] VTrue [] =
     (Inr None,
      [Printed (MsgRequesting ''II/349/ps1''
                  [''*'', ''RAJ2000'', ''DEJ2000'', ''e_RAJ2000'', ''e_DEJ2000'']),
       Printed (MsgCenter 10 20 (1/2)),
       Printed (MsgFilters []),
       VizierQuery (Vizier (-1) [''*'', ''RAJ2000'', ''DEJ2000'', ''e_RAJ2000'', ''e_DEJ2000'']
                      [] 10 20 (1/2) ''II/349/ps1''),
       VizierQuery ((Vizier (-1) [''*'', ''RAJ2000'', ''DEJ2000'', ''e_RAJ2000'', ''e_DEJ2000'']
                       [] 10 20 (1/2) ''II/349/ps1'')\<lparr>vz_cache := False\<rparr>),
       Printed (MsgError ''ps1'')])"
proof -
  let ?cols = "[''*'', ''RAJ2000'', ''DEJ2000'', ''e_RAJ2000'', ''e_DEJ2000'']"
  have r: "resolve ''ps1'' [] = (''II/349/ps1'', ''PanSTARRS DR1'', ?cols)"
    by (simp add: resolve_def catalogs_def)
  have d: "- 90 \<le> (20::real)" "(20::real) \<le> 90" by simp_all
  have f: "vizier_query_region env_offline w rq = Inr (Some [])" for w rq
    by (simp add: env_offline_def)
  have n: "not_single (Some [])" by simp
  from get_cat_vizier_retries_once
         [where env = env_offline and w = "[]" and verbose = VTrue and limit = "-1"
            and filters = "[]" and ?sr0.0 = "1/2", OF r refl refl d f n] f n
  show ?thesis by (simp add: announce_def)
qed

section \<open>Failures of the remote services\<close>

text \<open>
  Facts about a trace \<open>w'\<close> that extends \<open>w\<close>: they say what holds for every event of
  the extension that satisfies \<open>A\<close> together with the history before it.
\<close>

lemma split_trace:
  assumes "w @ ext = h @ ev # rest" "length w \<le> length h"
  shows "\<exists>h'. h = w @ h' \<and> ext = h' @ ev # rest"
proof -
  from assms obtain us where "h = w @ us \<and> us @ ev # rest = ext \<or> h @ us = w \<and> ev # rest = us @ ext"
    by (auto simp: append_eq_append_conv2)
  then show ?thesis using assms(2) by auto
qed

lemma trace_step:
  assumes ih: "(\<exists>ext. w' = (w @ [ev0]) @ ext) \<and>
               (\<forall>h ev rest. w' = h @ ev # rest \<and> length (w @ [ev0]) \<le> length h \<and> A h ev \<longrightarrow> C)"
    and here: "\<not> A w ev0"
  shows "(\<exists>ext. w' = w @ ext) \<and>
         (\<forall>h ev rest. w' = h @ ev # rest \<and> length w \<le> length h \<and> A h ev \<longrightarrow> C)"
proof (intro conjI allI impI)
  from ih show "\<exists>ext. w' = w @ ext" by auto
next
  fix h ev rest
  assume a: "w' = h @ ev # rest \<and> length w \<le> length h \<and> A h ev"
  from ih obtain ext where ext: "w' = w @ ev0 # ext" by auto
  with a have "w @ (ev0 # ext) = h @ ev # rest" by simp
  from split_trace [OF this] a obtain h' where h': "h = w @ h'" "ev0 # ext = h' @ ev # rest"
    by blast
  show C
  proof (cases h')
    case Nil
    with h' a here show ?thesis by simp
  next
    case (Cons x xs)
    with h' have "length (w @ [ev0]) \<le> length h" by simp
    with ih a show ?thesis by blast
  qed
qed


lemma trace_none:
  "(\<exists>ext. w = w @ ext) \<and>
   (\<forall>h ev rest. w = h @ ev # rest \<and> length w \<le> length h \<and> A h ev \<longrightarrow> C)"
  by (auto dest: arg_cong [where f = length])


lemma log_msg_append: "\<exists>l. log_msg v m w = w @ l \<and> (\<forall>ev \<in> set l. \<exists>m. ev = Printed m \<or> ev = Called m)"
  by (cases v) auto














section \<open>The cone search and the match of xmatch_skybot\<close>

text \<open>
  C5, as amended. Let \<open>(ra0, dec0, sr0)\<close> be the centre and the extent of the object list.
  Every cone search that \<open>xmatch_skybot\<close> sends is centred on \<open>(ra0, dec0)\<close> and has the
  radius \<open>sr0 + 2 * sr\<close>: the extent plus twice the match tolerance. The search is sent
  whenever the declination of the centre is valid and the epoch can be built.
\<close>

theorem skybot_radius:
  assumes c: "get_objects_center env obj = Inr (ra0, dec0, sr0)"
    and r: "xmatch_skybot env obj sr time col_ra col_dec col_id w = (res, w')"
  shows "(\<forall>rq. SkybotQuery rq \<in> set (drop (length w) w') \<longrightarrow>
            sb_radius rq = sr0 + 2 * sr \<and> sb_center rq = (ra0, dec0))
       \<and> (- 90 \<le> dec0 \<and> dec0 \<le> 90 \<and> mk_time env time = Inr epoch \<longrightarrow>
            w' = w @ [SkybotQuery \<lparr>sb_center = (ra0, dec0), sb_radius = sr0 + 2 * sr,
                                   sb_epoch = epoch\<rparr>])"
proof -
  have "snd (cone_search env ra0 dec0 sr0 sr time w) = w' "
    using c r by (auto simp: xmatch_skybot_def split: prod.splits sum.splits if_splits)
  then show ?thesis
    by (auto simp: cone_search_def SkyCoord_def Let_def split: sum.splits if_splits)
qed

text \<open>
  With the extent \<open>1\<close> and the tolerance \<open>1/360\<close> the radius is \<open>1 + 2/360 = 181/180\<close>,
  which is not the extent plus the tolerance.
\<close>

theorem skybot_radius_witness:
  "snd (xmatch_skybot env_down obj1 (1/360) (Some 2460000) ''ra'' ''dec'' ''id'' [])
     = [SkybotQuery \<lparr>sb_center = (0, 0), sb_radius = 1 + 2 * (1/360), sb_epoch = 2460000\<rparr>]"
proof -
  let ?r = "xmatch_skybot env_down obj1 (1/360) (Some 2460000) ''ra'' ''dec'' ''id'' []"
  have c: "get_objects_center env_down obj1 = Inr (0, 0, 1)" by (simp add: env_down_def)
  have r: "?r = (fst ?r, snd ?r)" by simp
  have t: "mk_time env_down (Some 2460000) = Inr 2460000" by (simp add: env_down_def)
  from skybot_radius [OF c r, THEN conjunct2, rule_format, of 2460000] t
  show ?thesis by simp
qed

theorem skybot_radius_counterexample:
  "get_objects_center env_down obj1 = Inr (0, 0, 1)
   \<and> snd (xmatch_skybot env_down obj1 (1/360) (Some 2460000) ''ra'' ''dec'' ''id'' [])
       = [SkybotQuery \<lparr>sb_center = (0, 0), sb_radius = 181 / 180, sb_epoch = 2460000\<rparr>]
   \<and> (181 / 180 :: real) \<noteq> 1 + 1 / 360"
  by (simp add: xmatch_skybot_def env_down_def cone_search_def SkyCoord_def
                  except_matches_def isinstance_def)

lemma great_circle_equator:
  assumes "0 \<le> x" "x \<le> 180"
  shows "great_circle 0 0 x 0 = x"
proof -
  have "0 \<le> x * pi / 180" using assms by simp
  moreover have "x * pi / 180 \<le> pi" using assms by (simp add: mult_left_le_one_le divide_le_eq)
  ultimately have "arccos (cos (x * pi / 180)) = x * pi / 180" by (rule arccos_cos)
  then show ?thesis by (simp add: great_circle_def)
qed

text \<open>
  C4. The match of \<open>xmatch_skybot\<close> is made with the tolerance \<open>10/3600\<close> whatever \<open>sr\<close>
  is. Here \<open>sr\<close> is one arc second and the only ephemeris row is five arc seconds from
  the only object: within \<open>sr\<close> the row has no nearest object, yet the function gives it
  the identifier \<open>7\<close> of the object, unmasked.
\<close>

theorem skybot_match_ignores_sr:
  "great_circle 0 0 (5 / 3600) 0 = 5 / 3600
   \<and> spherical_match_spec (NumCol [0]) (NumCol [0]) (NumCol [5 / 3600]) (NumCol [0]) (1 / 3600)
       = Inr ([], [], [])
   \<and> fst (xmatch_skybot env_sky obj1 (1 / 3600) (Some 2460000) ''ra'' ''dec'' ''id'' [])
       = Inr (Some \<lparr>cols = [(''Name'', StrCol [''Ceres'']), (''RA'', NumCol [5 / 3600]),
                            (''DEC'', NumCol [0]), (''id'', MaskedCol [Num 7])], meta = []\<rparr>)"
proof -
  have g: "great_circle 0 0 (5 / 3600) 0 = 5 / 3600"
    by (rule great_circle_equator) simp_all
  from g have g': "great_circle 0 0 (1 / 720) 0 = 1 / 720" by simp
  have n: "nearest_within [0] [0] (5 / 3600) 0 (10 / 3600) = Some (0, 5 / 3600)"
    by (simp add: nearest_within_def g')
  have m: "spherical_match_spec (NumCol [0]) (NumCol [0]) (NumCol [5 / 3600]) (NumCol [0]) (10 / 3600)
             = Inr ([0], [0], [5 / 3600])"
    using n by simp
  have a: "annotate env_sky obj1 ephemeris1 ''ra'' ''dec'' ''id''
      = Inr \<lparr>cols = [(''Name'', StrCol [''Ceres'']), (''RA'', NumCol [5 / 3600]),
                            (''DEC'', NumCol [0]), (''id'', MaskedCol [Num 7])], meta = []\<rparr>"
    using m
    by (simp add: annotate_def obj1_def ephemeris1_def getitem_def env_sky_def
          setitem_scalar_def setitem_def tlen_def col_len_def put_idx_def)
  have m': "spherical_match_spec (NumCol [0]) (NumCol [0]) (NumCol [5 / 3600]) (NumCol [0]) (1 / 3600)
             = Inr ([], [], [])"
    by (simp add: nearest_within_def g')
  have x: "fst (xmatch_skybot env_sky obj1 (1 / 3600) (Some 2460000) ''ra'' ''dec'' ''id'' [])
       = Inr (Some \<lparr>cols = [(''Name'', StrCol [''Ceres'']), (''RA'', NumCol [5 / 3600]),
                            (''DEC'', NumCol [0]), (''id'', MaskedCol [Num 7])], meta = []\<rparr>)"
    using a by (simp add: xmatch_skybot_def env_sky_def cone_search_def SkyCoord_def)
  from g m' x show ?thesis by (intro conjI)
qed


section \<open>The per-object queries of xmatch_ned\<close>

lemma col_len_broadcast [simp]: "col_len (broadcast n v) = n"
  by (cases v) (simp_all add: col_len_def)

lemma stamp_truthy:
  "truthy a \<Longrightarrow> \<exists>res. a = Some res \<and> tlen res \<noteq> 0 \<and> stamp a v = Inr (stamped v res)"
  by (cases a) (auto simp: setitem_scalar_def setitem_def stamped_def)

lemma row_get_nth:
  "getitem t name = Inr c \<Longrightarrow> i < col_len c \<Longrightarrow> row_get t i name = Inr (cells c ! i)"
  by (simp add: row_get_def)

lemma ned_loop_forward:
  assumes ra: "getitem obj col_ra = Inr (NumCol ras)"
    and dec: "getitem obj col_dec = Inr (NumCol decs)"
    and id: "getitem obj col_id = Inr ids"
    and rows: "\<forall>i \<in> set rows. i < length ras \<and> i < length decs \<and> i < col_len ids
                  \<and> - 90 \<le> decs ! i \<and> decs ! i \<le> 90"
    and ok: "\<forall>a \<in> set (ned_answers env
                (map (\<lambda>i. \<lparr>ned_center = (ras ! i, decs ! i), ned_radius = sr\<rparr>) rows) w).
               \<exists>res. a = Inr res"
  shows "ned_loop env obj sr col_ra col_dec col_id rows xcat w =
           (Inr (xcat @ ned_kept (map ((!) (cells ids)) rows)
                   (ned_answers env
                      (map (\<lambda>i. \<lparr>ned_center = (ras ! i, decs ! i), ned_radius = sr\<rparr>) rows) w)),
            w @ map NedQuery
                  (map (\<lambda>i. \<lparr>ned_center = (ras ! i, decs ! i), ned_radius = sr\<rparr>) rows))"
  using rows ok
proof (induction rows arbitrary: xcat w)
  case Nil
  then show ?case by simp
next
  case (Cons i rows)
  let ?rq = "\<lparr>ned_center = (ras ! i, decs ! i), ned_radius = sr\<rparr>"
  from Cons.prems(1) have i: "i < length ras" "i < length decs" "i < col_len ids"
    "- 90 \<le> decs ! i" "decs ! i \<le> 90" by simp_all
  have coord: "bnd (row_get obj i col_ra) (\<lambda>ra.
           bnd (row_get obj i col_dec) (\<lambda>dec.
           bnd (cell_num ra) (\<lambda>ra.
           bnd (cell_num dec) (\<lambda>dec. SkyCoord ra dec)))) = Inr (ras ! i, decs ! i)"
    using i by (simp add: row_get_nth [OF ra] row_get_nth [OF dec] col_len_def SkyCoord_def)
  from Cons.prems(2) obtain a where a: "ned_query_region env w ?rq = Inr a" by auto
  have rest: "\<forall>i \<in> set rows. i < length ras \<and> i < length decs \<and> i < col_len ids
                  \<and> - 90 \<le> decs ! i \<and> decs ! i \<le> 90"
    "\<forall>a \<in> set (ned_answers env
                (map (\<lambda>i. \<lparr>ned_center = (ras ! i, decs ! i), ned_radius = sr\<rparr>) rows)
                (w @ [NedQuery ?rq])). \<exists>res. a = Inr res"
    using Cons.prems by simp_all
  note IH = Cons.IH [OF rest]
  show ?case
  proof (cases "truthy a")
    case True
    from stamp_truthy [OF this, of "cells ids ! i"] obtain res where
      res: "a = Some res" "tlen res \<noteq> 0" "stamp a (cells ids ! i) = Inr (stamped (cells ids ! i) res)"
      by blast
    show ?thesis
      using True i res by (simp add: coord a Let_def row_get_nth [OF id] IH)
  next
    case False
    then have "ned_kept (cells ids ! i # vs) (Inr a # answers) = ned_kept vs answers" for vs answers
      by (cases a) auto
    with False show ?thesis
      by (simp add: coord a Let_def IH)
  qed
qed

lemma map2_nth: "length xs = n \<Longrightarrow> length ys = n \<Longrightarrow>
   map (\<lambda>i. f (xs ! i) (ys ! i)) [0..<n] = map2 f xs ys"
  by (rule nth_equalityI) auto

lemma cells_broadcast [simp]: "cells (broadcast n v) = replicate n v"
  by (cases v) simp_all

lemma col_append_cells: "col_append c c' = Inr c'' \<Longrightarrow> cells c'' = cells c @ cells c'"
  by (cases c; cases c') auto

lemma stack_cols_keys: "stack_cols kcs t = Inr out \<Longrightarrow> map fst out = map fst kcs"
  by (induction kcs arbitrary: out) (auto simp: bnd_eq_Inr)

lemma stack_cols_cells:
  "stack_cols kcs t = Inr out \<Longrightarrow> map_of kcs k = Some c \<Longrightarrow>
     \<exists>c' c''. map_of (cols t) k = Some c' \<and> map_of out k = Some c''
        \<and> cells c'' = cells c @ cells c'"
proof (induction kcs arbitrary: out)
  case Nil
  then show ?case by simp
next
  case (Cons kc kcs)
  obtain k0 c0 where kc: "kc = (k0, c0)" by (cases kc)
  from Cons.prems(1) obtain c' c'' rest where
    s: "getitem t k0 = Inr c'" "col_append c0 c' = Inr c''" "stack_cols kcs t = Inr rest"
       "out = (k0, c'') # rest"
    by (auto simp: kc bnd_eq_Inr)
  show ?case
  proof (cases "k = k0")
    case True
    with s Cons.prems(2) kc show ?thesis
      by (auto simp: getitem_def col_append_cells split: option.splits)
  next
    case False
    with Cons.IH [OF s(3)] Cons.prems(2) kc s(4) show ?thesis by simp
  qed
qed

lemma map_of_None_keys: "map_of kvs k = None \<longleftrightarrow> k \<notin> set (map fst kvs)"
  by (simp add: map_of_eq_None_iff)

lemma stack2_cells:
  assumes "stack2 a b = Inr t"
  shows "col_cells t k = col_cells a k @ col_cells b k" and "set (keys t) = set (keys a)"
proof -
  from assms obtain out where
    k: "set (keys a) = set (keys b)" and s: "stack_cols (cols a) b = Inr out" and t: "cols t = out"
    by (auto simp: stack2_def bnd_eq_Inr split: if_splits)
  from stack_cols_keys [OF s] t show "set (keys t) = set (keys a)" by (simp add: keys_def)
  show "col_cells t k = col_cells a k @ col_cells b k"
  proof (cases "map_of (cols a) k")
    case None
    then have "k \<notin> set (keys a)" by (simp add: map_of_None_keys keys_def)
    with k stack_cols_keys [OF s] t have "map_of (cols b) k = None" "map_of (cols t) k = None"
      by (simp_all add: map_of_None_keys keys_def)
    with None show ?thesis by (simp add: col_cells_def)
  next
    case (Some c)
    from stack_cols_cells [OF s Some] t show ?thesis by (auto simp: col_cells_def Some)
  qed
qed

lemma stack_all_cells:
  "stack_all acc ts = Inr t \<Longrightarrow>
     col_cells t k = col_cells acc k @ concat (map (\<lambda>r. col_cells r k) ts)"
proof (induction ts arbitrary: acc)
  case Nil
  then show ?case by simp
next
  case (Cons a ts)
  from Cons.prems obtain acc' where s: "stack2 acc a = Inr acc'" "stack_all acc' ts = Inr t"
    by (auto simp: bnd_eq_Inr)
  from Cons.IH [OF s(2)] stack2_cells(1) [OF s(1)] show ?case by simp
qed

lemma vstack_cells:
  "vstack ts = Inr t \<Longrightarrow> col_cells t k = concat (map (\<lambda>r. col_cells r k) ts)"
proof (cases ts)
  case Nil
  assume "vstack ts = Inr t"
  with Nil show ?thesis by simp
next
  case (Cons a rest)
  assume v: "vstack ts = Inr t"
  show ?thesis
  proof (cases rest)
    case Nil
    with Cons v show ?thesis by simp
  next
    case (Cons b rest')
    with \<open>ts = a # rest\<close> v have "stack_all a rest = Inr t" by simp
    from stack_all_cells [OF this] \<open>ts = a # rest\<close> show ?thesis by simp
  qed
qed

lemma col_cells_stamped: "col_cells (stamped v res) ''id'' = replicate (tlen res) v"
  by (simp add: col_cells_def stamped_def map_of_dict_put)

lemma ned_kept_ids:
  "concat (map (\<lambda>r. col_cells r ''id'') (ned_kept vs answers)) = ned_ids vs answers"
  by (induction vs answers rule: ned_kept.induct) (simp_all add: col_cells_stamped)

lemma ned_loop_kept:
  "ned_loop env obj sr col_ra col_dec col_id rows xcat w = (Inr out, w') \<Longrightarrow>
     (\<exists>ext. w' = w @ ext) \<and>
     (\<exists>ys. out = xcat @ ys \<and>
        (ys = [] \<longleftrightarrow> (\<forall>h ev rest. w' = h @ ev # rest \<and> length w \<le> length h
                               \<and> ned_nonempty env h ev \<longrightarrow> False)))"
proof (induction rows arbitrary: xcat w)
  case Nil
  then have "out = xcat" "w' = w" by simp_all
  with trace_none [of w "ned_nonempty env" False] show ?case by simp
next
  case (Cons row rows)
  from Cons.prems obtain c where c: "bnd (row_get obj row col_ra) (\<lambda>ra.
           bnd (row_get obj row col_dec) (\<lambda>dec.
           bnd (cell_num ra) (\<lambda>ra.
           bnd (cell_num dec) (\<lambda>dec. SkyCoord ra dec)))) = Inr c"
    by (auto split: sum.splits)
  let ?rq = "\<lparr>ned_center = c, ned_radius = sr\<rparr>"
  let ?w1 = "w @ [NedQuery ?rq]"
  from Cons.prems c obtain a where a: "ned_query_region env w ?rq = Inr a"
    by (auto simp: Let_def split: sum.splits)
  show ?case
  proof (cases "truthy a")
    case True
    with Cons.prems c a obtain r where
      l: "ned_loop env obj sr col_ra col_dec col_id rows (xcat @ [r]) ?w1 = (Inr out, w')"
      by (auto simp: Let_def split: sum.splits)
    from Cons.IH [OF l] obtain ext ys where e: "w' = ?w1 @ ext" "out = (xcat @ [r]) @ ys"
      by blast
    have "w' = w @ NedQuery ?rq # ext \<and> length w \<le> length w
            \<and> ned_nonempty env w (NedQuery ?rq)"
      using e True by (simp add: ned_nonempty_def a)
    then have "\<not> (\<forall>h ev rest. w' = h @ ev # rest \<and> length w \<le> length h
                               \<and> ned_nonempty env h ev \<longrightarrow> False)"
      by blast
    with e show ?thesis by auto
  next
    case False
    with Cons.prems c a have
      l: "ned_loop env obj sr col_ra col_dec col_id rows xcat ?w1 = (Inr out, w')"
      by (auto simp: Let_def split: sum.splits)
    have no: "\<not> ned_nonempty env w (NedQuery ?rq)"
      using False by (simp add: ned_nonempty_def a)
    from Cons.IH [OF l] obtain ys where
      e: "\<exists>ext. w' = ?w1 @ ext" "out = xcat @ ys"
         "ys = [] \<longleftrightarrow> (\<forall>h ev rest. w' = h @ ev # rest \<and> length ?w1 \<le> length h
                               \<and> ned_nonempty env h ev \<longrightarrow> False)"
      by blast
    have "(\<forall>h ev rest. w' = h @ ev # rest \<and> length ?w1 \<le> length h
                               \<and> ned_nonempty env h ev \<longrightarrow> False)
        \<longleftrightarrow> (\<forall>h ev rest. w' = h @ ev # rest \<and> length w \<le> length h
                               \<and> ned_nonempty env h ev \<longrightarrow> False)" (is "?L \<longleftrightarrow> ?R")
    proof
      assume ?L
      with e(1) have "(\<exists>ext. w' = ?w1 @ ext) \<and> ?L" by blast
      from trace_step [OF this no] show ?R by blast
    next
      assume r: ?R
      show ?L
      proof (intro allI impI)
        fix h ev rest
        assume "w' = h @ ev # rest \<and> length ?w1 \<le> length h \<and> ned_nonempty env h ev"
        then have "w' = h @ ev # rest \<and> length w \<le> length h \<and> ned_nonempty env h ev"
          by simp
        with r show False by blast
      qed
    qed
    with e show ?thesis by auto
  qed
qed

text \<open>
  C10. For an object list without rows \<open>xmatch_ned\<close> returns the empty list and asks
  nothing. Whenever \<open>xmatch_ned\<close> returns, the result is the empty list exactly when no
  query of the run was answered with a table that has rows, and it is a table exactly
  when some query was; it is never \<open>None\<close>, which the result type does not contain.
\<close>

theorem xmatch_ned_result:
  "(tlen obj = 0 \<longrightarrow>
      xmatch_ned env obj sr col_ra col_dec col_id w = (Inr (PyList []), w))
 \<and> (xmatch_ned env obj sr col_ra col_dec col_id w = (Inr r, w') \<longrightarrow>
      (r = PyList [] \<longleftrightarrow>
         \<not> (\<exists>h ev rest. w' = h @ ev # rest \<and> length w \<le> length h
                \<and> ned_nonempty env h ev))
    \<and> ((\<exists>t. r = PyTable t) \<longleftrightarrow>
         (\<exists>h ev rest. w' = h @ ev # rest \<and> length w \<le> length h
                \<and> ned_nonempty env h ev)))"
proof (intro conjI impI)
  assume "tlen obj = 0"
  then show "xmatch_ned env obj sr col_ra col_dec col_id w = (Inr (PyList []), w)"
    by (simp add: xmatch_ned_def)
next
  assume x: "xmatch_ned env obj sr col_ra col_dec col_id w = (Inr r, w')"
  obtain lr wl where l: "ned_loop env obj sr col_ra col_dec col_id [0..<tlen obj] [] w = (lr, wl)"
    by (cases "ned_loop env obj sr col_ra col_dec col_id [0..<tlen obj] [] w") auto
  with x obtain out where out: "lr = Inr out" "wl = w'"
    by (auto simp: xmatch_ned_def split: sum.splits if_splits)
  from ned_loop_kept [OF l [unfolded out]] have
    k: "out = [] \<longleftrightarrow> (\<forall>h ev rest. w' = h @ ev # rest \<and> length w \<le> length h
                               \<and> ned_nonempty env h ev \<longrightarrow> False)"
    by auto
  from x l out have r: "out = [] \<longrightarrow> r = PyList []" "out \<noteq> [] \<longrightarrow> (\<exists>t. r = PyTable t)"
    by (auto simp: xmatch_ned_def bnd_eq_Inr split: if_splits)
  from r k show "r = PyList [] \<longleftrightarrow>
         \<not> (\<exists>h ev rest. w' = h @ ev # rest \<and> length w \<le> length h
                \<and> ned_nonempty env h ev)"
    by (cases "out = []") auto
  from r k show "(\<exists>t. r = PyTable t) \<longleftrightarrow>
         (\<exists>h ev rest. w' = h @ ev # rest \<and> length w \<le> length h
                \<and> ned_nonempty env h ev)"
    by (cases "out = []") auto
qed

theorem xmatch_ned_result_witness:
  "xmatch_ned env_ned \<lparr>cols = [], meta = []\<rparr> (1 / 1200) ''ra'' ''dec'' ''id'' []
      = (Inr (PyList []), [])
 \<and> fst (xmatch_ned env_ned obj_quiet (1 / 1200) ''ra'' ''dec'' ''id'' []) = Inr (PyList [])"
proof
  have "tlen \<lparr>cols = [], meta = []\<rparr> = 0" by (simp add: tlen_def)
  with xmatch_ned_result [THEN conjunct1, of "\<lparr>cols = [], meta = []\<rparr>"]
  show "xmatch_ned env_ned \<lparr>cols = [], meta = []\<rparr> (1 / 1200) ''ra'' ''dec'' ''id'' []
      = (Inr (PyList []), [])"
    by simp
next
  let ?x = "xmatch_ned env_ned obj_quiet (1 / 1200) ''ra'' ''dec'' ''id'' []"
  let ?q1 = "NedQuery \<lparr>ned_center = (20, 0), ned_radius = 1 / 1200\<rparr>"
  let ?q2 = "NedQuery \<lparr>ned_center = (30, 0), ned_radius = 1 / 1200\<rparr>"
  have x: "?x = (Inr (PyList []), [?q1, ?q2])"
    by (simp add: xmatch_ned_def obj_quiet_def tlen_def col_len_def row_get_def getitem_def
                  SkyCoord_def env_ned_def no_rows_def upt_rec)
  have quiet: "\<not> (\<exists>h ev rest. [?q1, ?q2] = h @ ev # rest \<and> length ([] :: world) \<le> length h
                \<and> ned_nonempty env_ned h ev)"
    by (auto simp: Cons_eq_append_conv ned_nonempty_def env_ned_def no_rows_def tlen_def col_len_def)
  have "?x = (Inr (case fst ?x of Inr r \<Rightarrow> r), [?q1, ?q2])" by (simp add: x)
  from xmatch_ned_result [THEN conjunct2, rule_format, OF this, THEN conjunct1] quiet
  show "fst ?x = Inr (PyList [])" by (simp add: x)
qed


text \<open>
  C9. Let the coordinate columns of the object list be numeric with valid declinations,
  let the identifier column be there, and let no query raise. Then \<open>xmatch_ned\<close> sends
  exactly one query per object, in the order of the rows; it keeps the non-empty answers
  only, each stamped with the identifier of its object, and returns their concatenation
  (the empty list when nothing is kept). Every column of the concatenation is the
  sequence of the kept tables' columns, and its column \<open>id\<close> carries, for each kept
  answer, the identifier of the object in as many rows as the answer has.
\<close>

theorem xmatch_ned_spec:
  assumes ra: "getitem obj col_ra = Inr (NumCol ras)"
    and dec: "getitem obj col_dec = Inr (NumCol decs)"
    and id: "getitem obj col_id = Inr ids"
    and len: "length ras = tlen obj" "length decs = tlen obj" "col_len ids = tlen obj"
    and range: "\<forall>d \<in> set decs. - 90 \<le> d \<and> d \<le> 90"
    and ok: "\<forall>a \<in> set (ned_answers env (ned_requests ras decs sr) w). \<exists>res. a = Inr res"
  shows "xmatch_ned env obj sr col_ra col_dec col_id w =
          (let kept = ned_kept (cells ids) (ned_answers env (ned_requests ras decs sr) w)
           in if kept = [] then Inr (PyList []) else bnd (vstack kept) (\<lambda>t. Inr (PyTable t)),
           w @ map NedQuery (ned_requests ras decs sr))
      \<and> (\<forall>t. vstack (ned_kept (cells ids) (ned_answers env (ned_requests ras decs sr) w)) = Inr t
            \<longrightarrow> (\<forall>k. col_cells t k =
                      concat (map (\<lambda>r. col_cells r k)
                        (ned_kept (cells ids) (ned_answers env (ned_requests ras decs sr) w))))
              \<and> col_cells t ''id''
                  = ned_ids (cells ids) (ned_answers env (ned_requests ras decs sr) w))"
proof (intro conjI allI impI)
  fix t k
  assume v: "vstack (ned_kept (cells ids) (ned_answers env (ned_requests ras decs sr) w)) = Inr t"
  from vstack_cells [OF v]
  show "col_cells t k = concat (map (\<lambda>r. col_cells r k)
                        (ned_kept (cells ids) (ned_answers env (ned_requests ras decs sr) w)))" .
  from vstack_cells [OF v, of "''id''"]
  show "col_cells t ''id'' = ned_ids (cells ids) (ned_answers env (ned_requests ras decs sr) w)"
    by (simp add: ned_kept_ids)
next
  let ?rows = "[0..<tlen obj]"
  have rq: "map (\<lambda>i. \<lparr>ned_center = (ras ! i, decs ! i), ned_radius = sr\<rparr>) ?rows
              = ned_requests ras decs sr"
    unfolding ned_requests_def using len(1,2) by (rule map2_nth)
  have ids: "map ((!) (cells ids)) ?rows = cells ids"
    using len(3) map_nth [of "cells ids"] by (simp add: col_len_def)
  have rows: "\<forall>i \<in> set ?rows. i < length ras \<and> i < length decs \<and> i < col_len ids
                  \<and> - 90 \<le> decs ! i \<and> decs ! i \<le> 90"
    using len range by simp
  have ok': "\<forall>a \<in> set (ned_answers env
                (map (\<lambda>i. \<lparr>ned_center = (ras ! i, decs ! i), ned_radius = sr\<rparr>) ?rows) w).
               \<exists>res. a = Inr res"
    using ok by (simp only: rq)
  from ned_loop_forward [OF ra dec id rows ok', of "[]"]
  show "xmatch_ned env obj sr col_ra col_dec col_id w =
          (let kept = ned_kept (cells ids) (ned_answers env (ned_requests ras decs sr) w)
           in if kept = [] then Inr (PyList []) else bnd (vstack kept) (\<lambda>t. Inr (PyTable t)),
           w @ map NedQuery (ned_requests ras decs sr))"
    by (simp add: xmatch_ned_def rq ids Let_def)
qed



theorem xmatch_ned_spec_witness:
  "xmatch_ned env_ned obj4 (1 / 1200) ''ra'' ''dec'' ''id'' [] =
     (Inr (PyTable \<lparr>cols = [(''Object Name'', StrCol [''NGC 1'', ''NGC 2'', ''IC 10'']),
                             (''Redshift'', NumCol [0.01, 0.02, 0.03]),
                             (''id'', NumCol [1, 1, 4])], meta = []\<rparr>),
      [NedQuery \<lparr>ned_center = (10, 0), ned_radius = 1 / 1200\<rparr>,
       NedQuery \<lparr>ned_center = (20, 0), ned_radius = 1 / 1200\<rparr>,
       NedQuery \<lparr>ned_center = (30, 0), ned_radius = 1 / 1200\<rparr>,
       NedQuery \<lparr>ned_center = (40, 0), ned_radius = 1 / 1200\<rparr>])"
proof -
  have ra: "getitem obj4 ''ra'' = Inr (NumCol [10, 20, 30, 40])"
    and dec: "getitem obj4 ''dec'' = Inr (NumCol [0, 0, 0, 0])"
    and id: "getitem obj4 ''id'' = Inr (NumCol [1, 2, 3, 4])"
    by (simp_all add: getitem_def obj4_def)
  have len: "length [10, 20, 30, 40 :: real] = tlen obj4" "length [0, 0, 0, 0 :: real] = tlen obj4"
    "col_len (NumCol [1, 2, 3, 4]) = tlen obj4"
    by (simp_all add: tlen_def obj4_def col_len_def)
  have range: "\<forall>d \<in> set [0, 0, 0, 0 :: real]. - 90 \<le> d \<and> d \<le> 90" by simp
  have answers: "ned_answers env_ned (ned_requests [10, 20, 30, 40] [0, 0, 0, 0] (1 / 1200)) []
     = [Inr (Some galaxies2), Inr (Some no_rows), Inr None, Inr (Some galaxy1)]"
    by (simp add: ned_requests_def env_ned_def)
  have ok: "\<forall>a \<in> set (ned_answers env_ned
               (ned_requests [10, 20, 30, 40] [0, 0, 0, 0] (1 / 1200)) []). \<exists>res. a = Inr res"
    by (simp add: answers)
  from xmatch_ned_spec [OF ra dec id len range ok, THEN conjunct1, unfolded answers]
  show ?thesis
    by (simp add: ned_requests_def stamped_def tlen_def col_len_def galaxies2_def
          galaxy1_def no_rows_def stack2_def keys_def getitem_def)
qed


section \<open>Tables, statements and expressions\<close>

lemma getitem_setitem:
  "setitem t n c = Inr t' \<Longrightarrow> getitem t' k = (if k = n then Inr c else getitem t k)"
  by (auto simp: setitem_def getitem_def map_of_dict_put split: if_splits)

lemma getitem_setitem_scalar:
  "setitem_scalar t n v = Inr t' \<Longrightarrow>
     getitem t' k = (if k = n then Inr (broadcast (tlen t) v) else getitem t k)"
  by (auto simp: setitem_scalar_def getitem_setitem split: if_splits)

lemma assign_success:
  assumes "assign n e t = Inr t'"
  shows "\<exists>v. e t = Inr v \<and>
           getitem t' n = Inr (case v of Array c \<Rightarrow> c | Scalar r \<Rightarrow> broadcast (tlen t) (Num r))"
    and "k \<noteq> n \<Longrightarrow> getitem t' k = getitem t k"
    and "meta t' = meta t"
proof -
  from assms obtain v where v: "e t = Inr v"
    and s: "(case v of Array c \<Rightarrow> setitem t n c | Scalar r \<Rightarrow> setitem_scalar t n (Num r)) = Inr t'"
    by (auto simp: assign_def bnd_eq_Inr)
  from s show "\<exists>v. e t = Inr v \<and>
           getitem t' n = Inr (case v of Array c \<Rightarrow> c | Scalar r \<Rightarrow> broadcast (tlen t) (Num r))"
    using v by (cases v) (auto simp: getitem_setitem getitem_setitem_scalar)
  from s show "getitem t' k = getitem t k" if "k \<noteq> n"
    using that by (cases v) (auto simp: getitem_setitem getitem_setitem_scalar)
  from s show "meta t' = meta t"
    by (cases v) (auto simp: setitem_def setitem_scalar_def split: if_splits)
qed

lemma preserves_assign: "k \<noteq> n \<Longrightarrow> preserves k (assign n e)"
  by (simp add: preserves_def assign_success(2))

lemma preserves_run: "list_all (preserves k) ss \<Longrightarrow> preserves k (run ss)"
proof (induction ss)
  case Nil
  then show ?case by (simp add: preserves_def)
next
  case (Cons s ss)
  then have s: "preserves k s" and ss: "preserves k (run ss)" by simp_all
  show ?case
    unfolding preserves_def
  proof (intro allI impI)
    fix t t'
    assume "run (s # ss) t = Inr t'"
    then obtain t1 where "s t = Inr t1" "run ss t1 = Inr t'" by (auto simp: bnd_eq_Inr)
    with s ss show "getitem t' k = getitem t k" by (simp add: preserves_def)
  qed
qed


lemma e_bin_Inr:
  "e_bin f a b t = Inr v \<longleftrightarrow> (\<exists>x y. a t = Inr x \<and> b t = Inr y \<and> binop f x y = Inr v)"
  by (auto simp: e_bin_def bnd_eq_Inr)

lemma e_polyval_Inr:
  "e_polyval p a t = Inr v \<longleftrightarrow> (\<exists>x. a t = Inr x \<and> unop (polyval p) x = Inr v)"
  by (auto simp: e_polyval_def bnd_eq_Inr)

lemma e_col_Inr: "e_col n t = Inr v \<longleftrightarrow> (\<exists>c. getitem t n = Inr c \<and> v = Array c)"
  by (auto simp: e_col_def bnd_eq_Inr)

lemma binop_cols:
  "binop f (Array c) (Array c') = Inr v \<longleftrightarrow>
     (\<exists>xs ys. c = NumCol xs \<and> c' = NumCol ys \<and> length xs = length ys
        \<and> v = Array (NumCol (map2 f xs ys)))"
  by (cases c; cases c') auto

lemma color_index:
  "e_sub (e_col a) (e_col b) t = Inr v \<longleftrightarrow>
     (\<exists>xs ys. getitem t a = Inr (NumCol xs) \<and> getitem t b = Inr (NumCol ys)
        \<and> length xs = length ys \<and> v = Array (NumCol (map2 (-) xs ys)))"
  by (auto simp: e_sub_def e_bin_Inr e_col_Inr binop_cols)



lemma e_and_bools:
  "a t = Inr (Array (BoolCol p)) \<Longrightarrow> b t = Inr (Array (BoolCol q)) \<Longrightarrow> length p = length q \<Longrightarrow>
     e_and a b t = Inr (Array (BoolCol (map2 (\<and>) p q)))"
  by (simp add: e_and_def)



lemma tlen_dict_put:
  "kvs \<noteq> [] \<Longrightarrow> col_len c = tlen \<lparr>cols = kvs, meta = m\<rparr> \<Longrightarrow>
     tlen \<lparr>cols = dict_put n c kvs, meta = m\<rparr> = tlen \<lparr>cols = kvs, meta = m\<rparr>"
  by (cases kvs) (auto simp: tlen_def)

lemma dict_put_not_Nil [simp]: "dict_put k v kvs \<noteq> []"
  by (cases kvs) (auto split: if_splits)

lemma setitem_len:
  assumes "setitem t n c = Inr t'" "cols t \<noteq> []"
  shows "col_len c = tlen t" "tlen t' = tlen t" "cols t' \<noteq> []"
proof -
  from assms show c: "col_len c = tlen t" by (auto simp: setitem_def split: if_splits)
  from assms have t': "t' = t\<lparr>cols := dict_put n c (cols t)\<rparr>"
    by (auto simp: setitem_def split: if_splits)
  then show "cols t' \<noteq> []" by simp
  from assms(2) c show "tlen t' = tlen t"
    unfolding t' by (cases "cols t") (auto simp: tlen_def)
qed

lemma assign_len:
  assumes "assign n e t = Inr t'" "cols t \<noteq> []"
  shows "tlen t' = tlen t" "cols t' \<noteq> []" "getitem t' n = Inr c \<Longrightarrow> col_len c = tlen t"
proof -
  from assms obtain v where v: "e t = Inr v"
    and s: "(case v of Array c \<Rightarrow> setitem t n c | Scalar r \<Rightarrow> setitem_scalar t n (Num r)) = Inr t'"
    by (auto simp: assign_def bnd_eq_Inr)
  then obtain c' where c': "setitem t n c' = Inr t'"
    by (cases v) (auto simp: setitem_scalar_def split: if_splits)
  from setitem_len [OF c' assms(2)] show "tlen t' = tlen t" "cols t' \<noteq> []" by simp_all
  from setitem_len(1) [OF c' assms(2)] getitem_setitem [OF c', of n]
  show "col_len c = tlen t" if "getitem t' n = Inr c" using that by simp
qed

lemma keeps_len_assign: "keeps_len (assign n e)"
  by (simp add: keeps_len_def assign_len)

lemma keeps_len_run: "list_all keeps_len ss \<Longrightarrow> keeps_len (run ss)"
proof (induction ss)
  case Nil
  then show ?case by (simp add: keeps_len_def)
next
  case (Cons s ss)
  then have s: "keeps_len s" and ss: "keeps_len (run ss)" by simp_all
  show ?case
    unfolding keeps_len_def
  proof (intro allI impI)
    fix t t'
    assume r: "run (s # ss) t = Inr t'" and ne: "cols t \<noteq> []"
    then obtain t1 where "s t = Inr t1" "run ss t1 = Inr t'" by (auto simp: bnd_eq_Inr)
    with s ss ne show "tlen t' = tlen t \<and> cols t' \<noteq> []" by (simp add: keeps_len_def)
  qed
qed

lemma getitem_cols: "getitem t k = Inr c \<Longrightarrow> cols t \<noteq> []"
  by (auto simp: getitem_def)



lemma map2_nth_eq:
  "length ys = length xs \<Longrightarrow> map2 f xs ys = map (\<lambda>k. f (xs ! k) (ys ! k)) [0..<length xs]"
  by (rule nth_equalityI) auto

section \<open>The successful runs of get_cat_vizier\<close>

lemma finish_cat_Some:
  assumes "finish_cat catalog vizier_id name verbose cats w = (Inr (Some t), w')"
  shows "\<exists>cat rest. cats = Some (cat # rest) \<and>
           bnd (fix_radec (cat\<lparr>meta := dict_put ''name'' name
                                     (dict_put ''vizier_id'' vizier_id (meta cat))\<rparr>))
               (augment catalog) = Inr t"
  using assms
  by (auto simp: finish_cat_def Let_def bnd_eq_Inr split: option.splits list.splits)

lemma not_single_False: "\<not> not_single cats \<longleftrightarrow> (\<exists>cat. cats = Some [cat])"
  by (cases cats) (auto simp: length_Suc_conv)

lemma get_cat_vizier_Some:
  assumes "get_cat_vizier env ra0 dec0 sr0 catalog limit filters extra verbose w
             = (Inr (Some t), w')"
  shows "\<exists>cat. retrieved env w w' cat \<and>
           bnd (fix_radec (cat\<lparr>meta := dict_put ''name'' (fst (snd (resolve catalog extra)))
                                     (dict_put ''vizier_id'' (fst (resolve catalog extra))
                                        (meta cat))\<rparr>))
               (augment catalog) = Inr t"
proof -
  obtain vizier_id name columns where r: "resolve catalog extra = (vizier_id, name, columns)"
    by (cases "resolve catalog extra") auto
  let ?w0 = "announce verbose vizier_id columns ra0 dec0 sr0 filters w"
  let ?rq = "Vizier limit columns filters ra0 dec0 sr0 vizier_id"
  have len0: "length w \<le> length ?w0"
    using log_msg_append [of verbose _ _]
    by (cases verbose) (simp_all add: announce_def Let_def)
  from assms obtain c where c: "SkyCoord ra0 dec0 = Inr c"
    by (cases "SkyCoord ra0 dec0")
       (auto simp: get_cat_vizier_def r Let_def query_region_def split: sum.splits)
  let ?q1 = "?rq\<lparr>vz_center := c\<rparr>"
  let ?q2 = "?rq\<lparr>vz_cache := False, vz_center := c\<rparr>"
  let ?w1 = "?w0 @ [VizierQuery ?q1]"
  let ?w2 = "?w1 @ [VizierQuery ?q2]"
  from assms c obtain cats1 where a1: "vizier_query_region env ?w0 ?q1 = Inr cats1"
    by (cases "vizier_query_region env ?w0 ?q1")
       (auto simp: get_cat_vizier_def r Let_def query_region_def split: sum.splits)
  have fin: "\<exists>cat. retrieved env w w' cat \<and>
           bnd (fix_radec (cat\<lparr>meta := dict_put ''name'' name
                                     (dict_put ''vizier_id'' vizier_id (meta cat))\<rparr>))
               (augment catalog) = Inr t"
    if f: "finish_cat catalog vizier_id name verbose cats wq = (Inr (Some t), w')"
      and single: "\<not> not_single cats"
      and wq: "wq = h @ [VizierQuery q]" "length w \<le> length h"
         "vizier_query_region env h q = Inr cats" for cats wq h q
  proof -
    from single obtain cat where cat: "cats = Some [cat]" by (auto simp: not_single_False)
    from f have "w' = snd (finish_cat catalog vizier_id name verbose cats wq)" by simp
    then obtain l where "w' = wq @ l"
      using log_msg_append [of verbose _ wq] by (auto simp: snd_finish_cat cat)
    with wq cat have "retrieved env w w' cat"
      by (auto simp: retrieved_def)
    with finish_cat_Some [OF f] cat show ?thesis by auto
  qed
  have "\<exists>cat. retrieved env w w' cat \<and>
           bnd (fix_radec (cat\<lparr>meta := dict_put ''name'' name
                                     (dict_put ''vizier_id'' vizier_id (meta cat))\<rparr>))
               (augment catalog) = Inr t"
  proof (cases "not_single cats1")
    case False
    with assms c a1 have "finish_cat catalog vizier_id name verbose cats1 ?w1 = (Inr (Some t), w')"
      by (simp add: get_cat_vizier_def r Let_def query_region_def)
    from this False refl len0 a1 show ?thesis by (rule fin)
  next
    case True
    with assms c a1 obtain cats2 where a2: "vizier_query_region env ?w1 ?q2 = Inr cats2"
      by (cases "vizier_query_region env ?w1 ?q2")
         (auto simp: get_cat_vizier_def r Let_def query_region_def split: sum.splits)
    with True assms c a1 have s2: "\<not> not_single cats2"
      and f: "finish_cat catalog vizier_id name verbose cats2 ?w2 = (Inr (Some t), w')"
      by (auto simp: get_cat_vizier_def r Let_def query_region_def split: if_splits)
    have "length w \<le> length ?w1" using len0 by simp
    from f s2 refl this a2 show ?thesis by (rule fin)
  qed
  then show ?thesis by (simp add: r)
qed

lemmas eval_defs =
  get_cat_vizier_def resolve_def catalogs_def announce_def Vizier_def query_region_def
  SkyCoord_def finish_cat_def fix_radec_def keys_def tlen_def col_len_def augment_def
  assign_def setitem_def setitem_scalar_def getitem_def
  e_col_def e_num_def e_val_def e_bin_def e_add_def e_sub_def e_mul_def e_div_def e_pow_def
  e_polyval_def e_gt_def e_lt_def e_and_def e_index_def polyval_def Let_def

section \<open>The validity flag of Pan-STARRS and ATLAS\<close>







section \<open>The correction of the Gaia DR2 G magnitude\<close>

lemma length_bool_index:
  "length bs = length xs \<Longrightarrow> length (bool_index xs bs) = length (filter id bs)"
  by (induction xs bs rule: bool_index.induct) auto

lemma bool_index_map: "bool_index xs (map P xs) = filter P xs"
  by (induction xs) auto

lemma bool_assign_map:
  "length xs = length ys \<Longrightarrow>
     bool_assign xs (map P ys) (map f (filter P ys)) = map2 (\<lambda>x y. if P y then f y else x) xs ys"
proof (induction xs arbitrary: ys)
  case Nil
  then show ?case by simp
next
  case (Cons x xs)
  then obtain y ys' where ys: "ys = y # ys'" by (cases ys) auto
  with Cons show ?case by (cases "P y") auto
qed

lemma map2_same: "map2 f (map p xs) (map q xs) = map (\<lambda>x. f (p x) (q x)) xs"
  by (induction xs) auto

lemma map2_same_l: "map2 f xs (map q xs) = map (\<lambda>x. f x (q x)) xs"
  by (induction xs) auto

lemma map2_same_r: "map2 f (map p xs) xs = map (\<lambda>x. f (p x) x) xs"
  by (induction xs) auto

lemma filter_id_map: "filter id (map P xs) = map P (filter P xs)"
  by (induction xs) auto

lemma mask_set_map:
  "length xs = length ys \<Longrightarrow>
     mask_set (Array (NumCol xs)) (Array (BoolCol (map P ys))) (Array (NumCol (map f (filter P ys))))
       = Inr (Array (NumCol (map2 (\<lambda>x y. if P y then f y else x) xs ys)))"
  by (simp add: filter_id_map bool_assign_map)

lemma gaia_gcorr_rows:
  "gaia_gcorr (Array (NumCol g)) t = Inr (Array (NumCol (map gcorr_spec g)))"
proof -
  let ?P1 = "\<lambda>x::real. 2 < x \<and> x < 6"
  let ?P2 = "\<lambda>x::real. 6 < x \<and> x < 16"
  let ?P3 = "\<lambda>x::real. 16 < x"
  let ?f1 = "\<lambda>x::real. - 0.047344 + 1.16405 * x - 0.046799 * x ^ 2 + 0.0035015 * x ^ 3"
  let ?f2 = "\<lambda>x::real. x - 0.0032 * (x - 6)"
  let ?f3 = "\<lambda>x::real. x - 0.032"
  let ?m1 = "e_and (e_gt (e_val (Array (NumCol g))) (e_num 2)) (e_lt (e_val (Array (NumCol g))) (e_num 6))"
  let ?m2 = "e_and (e_gt (e_val (Array (NumCol g))) (e_num 6)) (e_lt (e_val (Array (NumCol g))) (e_num 16))"
  let ?m3 = "e_gt (e_val (Array (NumCol g))) (e_num 16)"
  have m1: "?m1 t = Inr (Array (BoolCol (map ?P1 g)))"
    by (simp add: e_and_def e_gt_def e_lt_def e_val_def e_num_def map2_same)
  have m2: "?m2 t = Inr (Array (BoolCol (map ?P2 g)))"
    by (simp add: e_and_def e_gt_def e_lt_def e_val_def e_num_def map2_same)
  have m3: "?m3 t = Inr (Array (BoolCol (map ?P3 g)))"
    by (simp add: e_gt_def e_val_def e_num_def)
  have i1: "e_index (e_val (Array (NumCol g))) ?m1 t = Inr (Array (NumCol (filter ?P1 g)))"
    by (simp add: e_index_def m1 e_val_def bool_index_map)
  have i2: "e_index (e_val (Array (NumCol g))) ?m2 t = Inr (Array (NumCol (filter ?P2 g)))"
    by (simp add: e_index_def m2 e_val_def bool_index_map)
  have i3: "e_index (e_val (Array (NumCol g))) ?m3 t = Inr (Array (NumCol (filter ?P3 g)))"
    by (simp add: e_index_def m3 e_val_def bool_index_map)
  have v1: "e_add (e_sub (e_add (e_num (-0.047344))
                      (e_mul (e_num 1.16405) (e_index (e_val (Array (NumCol g))) ?m1)))
                    (e_mul (e_num 0.046799) (e_pow (e_index (e_val (Array (NumCol g))) ?m1) 2)))
              (e_mul (e_num 0.0035015) (e_pow (e_index (e_val (Array (NumCol g))) ?m1) 3)) t
          = Inr (Array (NumCol (map ?f1 (filter ?P1 g))))"
    by (simp add: e_add_def e_sub_def e_mul_def e_bin_def e_pow_def e_num_def i1 map2_same)
  have v2: "e_sub (e_index (e_val (Array (NumCol g))) ?m2)
                (e_mul (e_num 0.0032) (e_sub (e_index (e_val (Array (NumCol g))) ?m2) (e_num 6))) t
          = Inr (Array (NumCol (map ?f2 (filter ?P2 g))))"
    by (simp add: e_sub_def e_mul_def e_bin_def e_num_def i2 map2_same map2_same_l)
  have v3: "e_sub (e_index (e_val (Array (NumCol g))) ?m3) (e_num 0.032) t
          = Inr (Array (NumCol (map ?f3 (filter ?P3 g))))"
    by (simp add: e_sub_def e_bin_def e_num_def i3)
  let ?g1 = "map2 (\<lambda>x y. if ?P1 y then ?f1 y else x) g g"
  let ?g2 = "map2 (\<lambda>x y. if ?P2 y then ?f2 y else x) ?g1 g"
  let ?g3 = "map2 (\<lambda>x y. if ?P3 y then ?f3 y else x) ?g2 g"
  have s1: "mask_set (Array (NumCol g)) (Array (BoolCol (map ?P1 g)))
              (Array (NumCol (map ?f1 (filter ?P1 g)))) = Inr (Array (NumCol ?g1))"
    by (rule mask_set_map) simp
  have s2: "mask_set (Array (NumCol ?g1)) (Array (BoolCol (map ?P2 g)))
              (Array (NumCol (map ?f2 (filter ?P2 g)))) = Inr (Array (NumCol ?g2))"
    by (rule mask_set_map) simp
  have s3: "mask_set (Array (NumCol ?g2)) (Array (BoolCol (map ?P3 g)))
              (Array (NumCol (map ?f3 (filter ?P3 g)))) = Inr (Array (NumCol ?g3))"
    by (rule mask_set_map) simp
  have "gaia_gcorr (Array (NumCol g)) t = Inr (Array (NumCol ?g3))"
    unfolding gaia_gcorr_def Let_def
    by (simp only: v1 v2 v3 m1 m2 m3 s1 s2 s3 bnd_Inr)
  moreover have "?g3 = map gcorr_spec g"
    by (rule nth_equalityI) (auto simp: gcorr_spec_def)
  ultimately show ?thesis by simp
qed

lemma gaia_gcorr_Inr: "gaia_gcorr (Array c) t = Inr v \<Longrightarrow> \<exists>G. c = NumCol G"
  by (cases c)
     (simp_all add: gaia_gcorr_def Let_def e_add_def e_sub_def e_mul_def e_bin_def e_pow_def
        e_num_def e_index_def e_val_def e_and_def e_gt_def e_lt_def)

lemma fit_value:
  assumes "e_add (e_add (e_val (Array (NumCol a))) (e_polyval p (e_val (Array (NumCol d)))))
                 (e_polyval q (e_val (Array (NumCol c)))) t = Inr v"
  shows "length d = length a" "length c = length a"
    "v = Array (NumCol (map2 (+) (map2 (+) a (map (polyval p) d)) (map (polyval q) c)))"
  using assms
  by (auto simp: e_add_def e_bin_def e_polyval_def e_val_def split: if_splits)

lemma augment_gaiadr2_fits:
  assumes "augment_gaiadr2 t0 = Inr t'"
  shows "\<exists>G BP RP E.
           getitem t' ''Gmag'' = Inr (NumCol G) \<and> getitem t' ''BPmag'' = Inr (NumCol BP)
         \<and> getitem t' ''RPmag'' = Inr (NumCol RP) \<and> getitem t' ''E_BR_RP_'' = Inr (NumCol E)
         \<and> length G = tlen t' \<and> length BP = tlen t' \<and> length RP = tlen t' \<and> length E = tlen t'
         \<and> getitem t' ''B'' = Inr (NumCol (map (\<lambda>k. gaia_fit pB pCB (G ! k) (BP ! k) (RP ! k) (E ! k))
                                            [0..<tlen t']))
         \<and> getitem t' ''V'' = Inr (NumCol (map (\<lambda>k. gaia_fit pV pCV (G ! k) (BP ! k) (RP ! k) (E ! k))
                                            [0..<tlen t']))
         \<and> getitem t' ''R'' = Inr (NumCol (map (\<lambda>k. gaia_fit pR pCR (G ! k) (BP ! k) (RP ! k) (E ! k))
                                            [0..<tlen t']))
         \<and> getitem t' ''I'' = Inr (NumCol (map (\<lambda>k. gaia_fit pI pCI (G ! k) (BP ! k) (RP ! k) (E ! k))
                                            [0..<tlen t']))"
proof -
  let ?c = "[-0.00445024, 0.0570293, -0.02810592, 1.20477819] :: real list"
  from assms obtain g0 bp_rp_v Cstar_v gc where
    g0: "e_col ''Gmag'' t0 = Inr g0"
    and bp: "e_sub (e_col ''BPmag'') (e_col ''RPmag'') t0 = Inr bp_rp_v"
    and cs: "e_sub (e_col ''E_BR_RP_'') (e_polyval ?c (e_val bp_rp_v)) t0 = Inr Cstar_v"
    and gc: "gaia_gcorr g0 t0 = Inr gc"
    and run: "run
       [assign ''B'' (e_add (e_add (e_val gc) (e_polyval pB (e_val bp_rp_v))) (e_polyval pCB (e_val Cstar_v))),
        assign ''V'' (e_add (e_add (e_val gc) (e_polyval pV (e_val bp_rp_v))) (e_polyval pCV (e_val Cstar_v))),
        assign ''R'' (e_add (e_add (e_val gc) (e_polyval pR (e_val bp_rp_v))) (e_polyval pCR (e_val Cstar_v))),
        assign ''I'' (e_add (e_add (e_val gc) (e_polyval pI (e_val bp_rp_v))) (e_polyval pCI (e_val Cstar_v))),

        assign ''gmag'' (e_sub (e_sub (e_sub (e_col ''B'') (e_num 0.108))
                                  (e_mul (e_num 0.485) (e_sub (e_col ''B'') (e_col ''V''))))
                           (e_mul (e_num 0.032) (e_pow (e_sub (e_col ''B'') (e_col ''V'')) 2))),
        assign ''rmag'' (e_add (e_sub (e_add (e_col ''V'') (e_num 0.082))
                                  (e_mul (e_num 0.462) (e_sub (e_col ''B'') (e_col ''V''))))
                           (e_mul (e_num 0.041) (e_pow (e_sub (e_col ''B'') (e_col ''V'')) 2))),

        assign ''g_SDSS'' (e_sub (e_val gc)
           (e_add (e_sub (e_sub (e_num 0.13518) (e_mul (e_num 0.46245) (e_val bp_rp_v)))
                         (e_mul (e_num 0.25171) (e_pow (e_val bp_rp_v) 2)))
                  (e_mul (e_num 0.021349) (e_pow (e_val bp_rp_v) 3)))),
        assign ''r_SDSS'' (e_sub (e_val gc)
           (e_sub (e_sub (e_add (e_num (-0.12879)) (e_mul (e_num 0.24662) (e_val bp_rp_v)))
                         (e_mul (e_num 0.027464) (e_pow (e_val bp_rp_v) 2)))
                  (e_mul (e_num 0.049465) (e_pow (e_val bp_rp_v) 3)))),
        assign ''i_SDSS'' (e_sub (e_val gc)
           (e_sub (e_add (e_num (-0.29676)) (e_mul (e_num 0.64728) (e_val bp_rp_v)))
                  (e_mul (e_num 0.10141) (e_pow (e_val bp_rp_v) 2))))] t0 = Inr t'"
    unfolding augment_gaiadr2_def Let_def bnd_eq_Inr by blast
  from g0 gc obtain G where G: "getitem t0 ''Gmag'' = Inr (NumCol G)" "g0 = Array (NumCol G)"
    by (auto simp: e_col_Inr dest: gaia_gcorr_Inr)
  from gc have gcv: "gc = Array (NumCol (map gcorr_spec G))"
    by (simp add: G gaia_gcorr_rows)
  from bp obtain BP RP where BP: "getitem t0 ''BPmag'' = Inr (NumCol BP)"
    and RP: "getitem t0 ''RPmag'' = Inr (NumCol RP)" and lRP: "length RP = length BP"
    and bpv: "bp_rp_v = Array (NumCol (map2 (-) BP RP))"
    by (auto simp: color_index)
  from cs obtain E where E: "getitem t0 ''E_BR_RP_'' = Inr (NumCol E)"
    and lE: "length E = length BP"
    and csv: "Cstar_v = Array (NumCol (map2 (-) E (map (polyval ?c) (map2 (-) BP RP))))"
    using lRP
    by (auto simp: e_sub_def e_bin_Inr e_col_Inr e_polyval_Inr e_val_def bpv binop_cols)
  let ?d = "map2 (-) BP RP"
  let ?cs = "map2 (-) E (map (polyval ?c) ?d)"
  from run obtain t1 t2 t3 t4 where
    s1: "assign ''B'' (e_add (e_add (e_val gc) (e_polyval pB (e_val bp_rp_v))) (e_polyval pCB (e_val Cstar_v))) t0 = Inr t1"
    and s2: "assign ''V'' (e_add (e_add (e_val gc) (e_polyval pV (e_val bp_rp_v))) (e_polyval pCV (e_val Cstar_v))) t1 = Inr t2"
    and s3: "assign ''R'' (e_add (e_add (e_val gc) (e_polyval pR (e_val bp_rp_v))) (e_polyval pCR (e_val Cstar_v))) t2 = Inr t3"
    and s4: "assign ''I'' (e_add (e_add (e_val gc) (e_polyval pI (e_val bp_rp_v))) (e_polyval pCI (e_val Cstar_v))) t3 = Inr t4"
    and rest: "run
       [assign ''gmag'' (e_sub (e_sub (e_sub (e_col ''B'') (e_num 0.108))
                                  (e_mul (e_num 0.485) (e_sub (e_col ''B'') (e_col ''V''))))
                           (e_mul (e_num 0.032) (e_pow (e_sub (e_col ''B'') (e_col ''V'')) 2))),
        assign ''rmag'' (e_add (e_sub (e_add (e_col ''V'') (e_num 0.082))
                                  (e_mul (e_num 0.462) (e_sub (e_col ''B'') (e_col ''V''))))
                           (e_mul (e_num 0.041) (e_pow (e_sub (e_col ''B'') (e_col ''V'')) 2))),

        assign ''g_SDSS'' (e_sub (e_val gc)
           (e_add (e_sub (e_sub (e_num 0.13518) (e_mul (e_num 0.46245) (e_val bp_rp_v)))
                         (e_mul (e_num 0.25171) (e_pow (e_val bp_rp_v) 2)))
                  (e_mul (e_num 0.021349) (e_pow (e_val bp_rp_v) 3)))),
        assign ''r_SDSS'' (e_sub (e_val gc)
           (e_sub (e_sub (e_add (e_num (-0.12879)) (e_mul (e_num 0.24662) (e_val bp_rp_v)))
                         (e_mul (e_num 0.027464) (e_pow (e_val bp_rp_v) 2)))
                  (e_mul (e_num 0.049465) (e_pow (e_val bp_rp_v) 3)))),
        assign ''i_SDSS'' (e_sub (e_val gc)
           (e_sub (e_add (e_num (-0.29676)) (e_mul (e_num 0.64728) (e_val bp_rp_v)))
                  (e_mul (e_num 0.10141) (e_pow (e_val bp_rp_v) 2))))] t4 = Inr t'"
    unfolding run.simps(2) bnd_eq_Inr by blast
  let ?rest = "run
       [assign ''gmag'' (e_sub (e_sub (e_sub (e_col ''B'') (e_num 0.108))
                                  (e_mul (e_num 0.485) (e_sub (e_col ''B'') (e_col ''V''))))
                           (e_mul (e_num 0.032) (e_pow (e_sub (e_col ''B'') (e_col ''V'')) 2))),
        assign ''rmag'' (e_add (e_sub (e_add (e_col ''V'') (e_num 0.082))
                                  (e_mul (e_num 0.462) (e_sub (e_col ''B'') (e_col ''V''))))
                           (e_mul (e_num 0.041) (e_pow (e_sub (e_col ''B'') (e_col ''V'')) 2))),

        assign ''g_SDSS'' (e_sub (e_val gc)
           (e_add (e_sub (e_sub (e_num 0.13518) (e_mul (e_num 0.46245) (e_val bp_rp_v)))
                         (e_mul (e_num 0.25171) (e_pow (e_val bp_rp_v) 2)))
                  (e_mul (e_num 0.021349) (e_pow (e_val bp_rp_v) 3)))),
        assign ''r_SDSS'' (e_sub (e_val gc)
           (e_sub (e_sub (e_add (e_num (-0.12879)) (e_mul (e_num 0.24662) (e_val bp_rp_v)))
                         (e_mul (e_num 0.027464) (e_pow (e_val bp_rp_v) 2)))
                  (e_mul (e_num 0.049465) (e_pow (e_val bp_rp_v) 3)))),
        assign ''i_SDSS'' (e_sub (e_val gc)
           (e_sub (e_add (e_num (-0.29676)) (e_mul (e_num 0.64728) (e_val bp_rp_v)))
                  (e_mul (e_num 0.10141) (e_pow (e_val bp_rp_v) 2))))]"
  have rest_frame: "getitem t' k = getitem t4 k"
    if "k \<notin> {''gmag'', ''rmag'', ''g_SDSS'', ''r_SDSS'', ''i_SDSS''}" for k
  proof -
    have "preserves k ?rest"
      using that by (intro preserves_run) (simp add: preserves_assign)
    with rest show ?thesis by (simp add: preserves_def)
  qed
  \<comment> \<open>the values of the four fits\<close>
  from assign_success(1) [OF s1] obtain v1 where
    e1: "e_add (e_add (e_val gc) (e_polyval pB (e_val bp_rp_v))) (e_polyval pCB (e_val Cstar_v)) t0 = Inr v1"
    and c1: "getitem t1 ''B'' = Inr (case v1 of Array c \<Rightarrow> c | Scalar r \<Rightarrow> broadcast (tlen t0) (Num r))"
    by blast
  from assign_success(1) [OF s2] obtain v2 where
    e2: "e_add (e_add (e_val gc) (e_polyval pV (e_val bp_rp_v))) (e_polyval pCV (e_val Cstar_v)) t1 = Inr v2"
    and c2: "getitem t2 ''V'' = Inr (case v2 of Array c \<Rightarrow> c | Scalar r \<Rightarrow> broadcast (tlen t1) (Num r))"
    by blast
  from assign_success(1) [OF s3] obtain v3 where
    e3: "e_add (e_add (e_val gc) (e_polyval pR (e_val bp_rp_v))) (e_polyval pCR (e_val Cstar_v)) t2 = Inr v3"
    and c3: "getitem t3 ''R'' = Inr (case v3 of Array c \<Rightarrow> c | Scalar r \<Rightarrow> broadcast (tlen t2) (Num r))"
    by blast
  from assign_success(1) [OF s4] obtain v4 where
    e4: "e_add (e_add (e_val gc) (e_polyval pI (e_val bp_rp_v))) (e_polyval pCI (e_val Cstar_v)) t3 = Inr v4"
    and c4: "getitem t4 ''I'' = Inr (case v4 of Array c \<Rightarrow> c | Scalar r \<Rightarrow> broadcast (tlen t3) (Num r))"
    by blast
  note f1 = fit_value [OF e1 [unfolded gcv bpv csv]]
  note f2 = fit_value [OF e2 [unfolded gcv bpv csv]]
  note f3 = fit_value [OF e3 [unfolded gcv bpv csv]]
  note f4 = fit_value [OF e4 [unfolded gcv bpv csv]]
  from f1(1) lRP have lG: "length BP = length G" by simp
  have fit: "map2 (+) (map2 (+) (map gcorr_spec G) (map (polyval p) ?d)) (map (polyval q) ?cs)
               = map (\<lambda>k. gaia_fit p q (G ! k) (BP ! k) (RP ! k) (E ! k)) [0..<length G]" for p q
    using lG lRP lE by (intro nth_equalityI) (auto simp: gaia_fit_def)
  have B1: "getitem t1 ''B'' = Inr (NumCol (map (\<lambda>k. gaia_fit pB pCB (G ! k) (BP ! k) (RP ! k) (E ! k)) [0..<length G]))"
    by (simp only: c1 f1(3) pyval.case fit)
  have V2: "getitem t2 ''V'' = Inr (NumCol (map (\<lambda>k. gaia_fit pV pCV (G ! k) (BP ! k) (RP ! k) (E ! k)) [0..<length G]))"
    by (simp only: c2 f2(3) pyval.case fit)
  have R3: "getitem t3 ''R'' = Inr (NumCol (map (\<lambda>k. gaia_fit pR pCR (G ! k) (BP ! k) (RP ! k) (E ! k)) [0..<length G]))"
    by (simp only: c3 f3(3) pyval.case fit)
  have I4: "getitem t4 ''I'' = Inr (NumCol (map (\<lambda>k. gaia_fit pI pCI (G ! k) (BP ! k) (RP ! k) (E ! k)) [0..<length G]))"
    by (simp only: c4 f4(3) pyval.case fit)
  have upto4: "getitem t4 k = getitem t3 k" "getitem t3 k = getitem t2 k"
    "getitem t2 k = getitem t1 k" "getitem t1 k = getitem t0 k"
    if "k \<notin> {''B'', ''V'', ''R'', ''I''}" for k
    using that assign_success(2) [OF s1, of k] assign_success(2) [OF s2, of k]
      assign_success(2) [OF s3, of k] assign_success(2) [OF s4, of k]
    by simp_all
  have inputs: "getitem t' k = getitem t0 k"
    if "k \<in> {''Gmag'', ''BPmag'', ''RPmag'', ''E_BR_RP_''}" for k
    using that rest_frame [of k] upto4 [of k] by auto
  have B: "getitem t' ''B'' = getitem t1 ''B''"
    using rest_frame [of "''B''"] assign_success(2) [OF s2, of "''B''"]
      assign_success(2) [OF s3, of "''B''"] assign_success(2) [OF s4, of "''B''"] by simp
  have V: "getitem t' ''V'' = getitem t2 ''V''"
    using rest_frame [of "''V''"] assign_success(2) [OF s3, of "''V''"]
      assign_success(2) [OF s4, of "''V''"] by simp
  have R: "getitem t' ''R'' = getitem t3 ''R''"
    using rest_frame [of "''R''"] assign_success(2) [OF s4, of "''R''"] by simp
  have I: "getitem t' ''I'' = getitem t4 ''I''"
    using rest_frame [of "''I''"] by simp
  \<comment> \<open>the number of rows\<close>
  have ne0: "cols t0 \<noteq> []" using G(1) by (rule getitem_cols)
  have "keeps_len (run
       [assign ''B'' (e_add (e_add (e_val gc) (e_polyval pB (e_val bp_rp_v))) (e_polyval pCB (e_val Cstar_v))),
        assign ''V'' (e_add (e_add (e_val gc) (e_polyval pV (e_val bp_rp_v))) (e_polyval pCV (e_val Cstar_v))),
        assign ''R'' (e_add (e_add (e_val gc) (e_polyval pR (e_val bp_rp_v))) (e_polyval pCR (e_val Cstar_v))),
        assign ''I'' (e_add (e_add (e_val gc) (e_polyval pI (e_val bp_rp_v))) (e_polyval pCI (e_val Cstar_v))),

        assign ''gmag'' (e_sub (e_sub (e_sub (e_col ''B'') (e_num 0.108))
                                  (e_mul (e_num 0.485) (e_sub (e_col ''B'') (e_col ''V''))))
                           (e_mul (e_num 0.032) (e_pow (e_sub (e_col ''B'') (e_col ''V'')) 2))),
        assign ''rmag'' (e_add (e_sub (e_add (e_col ''V'') (e_num 0.082))
                                  (e_mul (e_num 0.462) (e_sub (e_col ''B'') (e_col ''V''))))
                           (e_mul (e_num 0.041) (e_pow (e_sub (e_col ''B'') (e_col ''V'')) 2))),

        assign ''g_SDSS'' (e_sub (e_val gc)
           (e_add (e_sub (e_sub (e_num 0.13518) (e_mul (e_num 0.46245) (e_val bp_rp_v)))
                         (e_mul (e_num 0.25171) (e_pow (e_val bp_rp_v) 2)))
                  (e_mul (e_num 0.021349) (e_pow (e_val bp_rp_v) 3)))),
        assign ''r_SDSS'' (e_sub (e_val gc)
           (e_sub (e_sub (e_add (e_num (-0.12879)) (e_mul (e_num 0.24662) (e_val bp_rp_v)))
                         (e_mul (e_num 0.027464) (e_pow (e_val bp_rp_v) 2)))
                  (e_mul (e_num 0.049465) (e_pow (e_val bp_rp_v) 3)))),
        assign ''i_SDSS'' (e_sub (e_val gc)
           (e_sub (e_add (e_num (-0.29676)) (e_mul (e_num 0.64728) (e_val bp_rp_v)))
                  (e_mul (e_num 0.10141) (e_pow (e_val bp_rp_v) 2))))])"
    by (intro keeps_len_run) (simp add: keeps_len_assign)
  with run ne0 have tl: "tlen t' = tlen t0" by (simp add: keeps_len_def)
  from assign_len(3) [OF s1 ne0 B1] have "length G = tlen t0" by (simp add: col_len_def)
  with tl have len: "length G = tlen t'" by simp
  show ?thesis
    using G(1) BP RP E inputs B V R I B1 V2 R3 I4 lG lRP lE len
    by (intro exI [of _ G] exI [of _ BP] exI [of _ RP] exI [of _ E]) simp
qed


text \<open>
  C3. The corrected magnitudes that \<open>get_cat_vizier\<close> computes for \<open>gaiadr2\<close> are, row by
  row, the piecewise \<open>gcorr_spec\<close> of the G magnitudes: the cubic for \<open>2 < G < 6\<close>, the
  linear correction for \<open>6 < G < 16\<close>, the shift by 0.032 for \<open>G > 16\<close>, and \<open>G\<close> itself
  everywhere else. The correction is applied before the colour-term fits: in the returned
  table the columns \<open>B\<close>, \<open>V\<close>, \<open>R\<close> and \<open>I\<close> are the corrected magnitude plus their
  colour terms, in every row.
\<close>

theorem gaia_g_correction:
  "gaia_gcorr (Array (NumCol G)) t0 = Inr (Array (NumCol (map gcorr_spec G)))
 \<and> (get_cat_vizier env ra0 dec0 sr0 catalog limit filters extra verbose w = (Inr (Some t), w')
      \<and> catalog = ''gaiadr2'' \<longrightarrow>
      (\<exists>G BP RP E.
           getitem t ''Gmag'' = Inr (NumCol G) \<and> getitem t ''BPmag'' = Inr (NumCol BP)
         \<and> getitem t ''RPmag'' = Inr (NumCol RP) \<and> getitem t ''E_BR_RP_'' = Inr (NumCol E)
         \<and> length G = tlen t \<and> length BP = tlen t \<and> length RP = tlen t \<and> length E = tlen t
         \<and> getitem t ''B'' = Inr (NumCol (map (\<lambda>k. gaia_fit pB pCB (G ! k) (BP ! k) (RP ! k) (E ! k))
                                            [0..<tlen t]))
         \<and> getitem t ''V'' = Inr (NumCol (map (\<lambda>k. gaia_fit pV pCV (G ! k) (BP ! k) (RP ! k) (E ! k))
                                            [0..<tlen t]))
         \<and> getitem t ''R'' = Inr (NumCol (map (\<lambda>k. gaia_fit pR pCR (G ! k) (BP ! k) (RP ! k) (E ! k))
                                            [0..<tlen t]))
         \<and> getitem t ''I'' = Inr (NumCol (map (\<lambda>k. gaia_fit pI pCI (G ! k) (BP ! k) (RP ! k) (E ! k))
                                            [0..<tlen t]))))"
proof (intro conjI impI)
  show "gaia_gcorr (Array (NumCol G)) t0 = Inr (Array (NumCol (map gcorr_spec G)))"
    by (rule gaia_gcorr_rows)
next
  assume a: "get_cat_vizier env ra0 dec0 sr0 catalog limit filters extra verbose w
               = (Inr (Some t), w') \<and> catalog = ''gaiadr2''"
  then have "get_cat_vizier env ra0 dec0 sr0 catalog limit filters extra verbose w
               = (Inr (Some t), w')" by blast
  from get_cat_vizier_Some [OF this] a obtain c where "augment_gaiadr2 c = Inr t"
    by (auto simp: bnd_eq_Inr augment_def)
  then show "\<exists>G BP RP E.
           getitem t ''Gmag'' = Inr (NumCol G) \<and> getitem t ''BPmag'' = Inr (NumCol BP)
         \<and> getitem t ''RPmag'' = Inr (NumCol RP) \<and> getitem t ''E_BR_RP_'' = Inr (NumCol E)
         \<and> length G = tlen t \<and> length BP = tlen t \<and> length RP = tlen t \<and> length E = tlen t
         \<and> getitem t ''B'' = Inr (NumCol (map (\<lambda>k. gaia_fit pB pCB (G ! k) (BP ! k) (RP ! k) (E ! k))
                                            [0..<tlen t]))
         \<and> getitem t ''V'' = Inr (NumCol (map (\<lambda>k. gaia_fit pV pCV (G ! k) (BP ! k) (RP ! k) (E ! k))
                                            [0..<tlen t]))
         \<and> getitem t ''R'' = Inr (NumCol (map (\<lambda>k. gaia_fit pR pCR (G ! k) (BP ! k) (RP ! k) (E ! k))
                                            [0..<tlen t]))
         \<and> getitem t ''I'' = Inr (NumCol (map (\<lambda>k. gaia_fit pI pCI (G ! k) (BP ! k) (RP ! k) (E ! k))
                                            [0..<tlen t]))"
    by (rule augment_gaiadr2_fits)
qed

theorem gaia_g_correction_witness:
  "getitem (the_table (fst (get_cat_vizier env_gaia 10 20 (1/2) ''gaiadr2'' (-1) [] [] VFalse [])))
     ''B'' = Inr (NumCol [4.084168 - 0.011211539139725953, 6 - 0.011211539139725953,
                          10 - 0.0128 - 0.011211539139725953,
                          20 - 0.032 - 0.011211539139725953])"
proof -
  let ?r = "get_cat_vizier env_gaia 10 20 (1/2) ''gaiadr2'' (-1) [] [] VFalse []"
  let ?t = "the_table (fst ?r)"
  have run: "?r = (Inr (Some ?t), snd ?r)"
    and cols: "getitem ?t ''Gmag'' = Inr (NumCol [4, 6, 10, 20])"
      "getitem ?t ''BPmag'' = Inr (NumCol [0, 0, 0, 0])"
      "getitem ?t ''RPmag'' = Inr (NumCol [0, 0, 0, 0])"
      "getitem ?t ''E_BR_RP_'' = Inr (NumCol [1.20477819, 1.20477819, 1.20477819, 1.20477819])"
      "tlen ?t = 4"
    by (simp_all add: eval_defs env_gaia_def vizier_only_def gaia_stars_def augment_gaiadr2_def gaia_gcorr_def
          pB_def pV_def pR_def pI_def pCB_def pCV_def pCR_def pCI_def the_table_def)
  from gaia_g_correction [THEN conjunct2, rule_format, OF conjI [OF run refl]] cols
  have "getitem ?t ''B'' = Inr (NumCol (map (\<lambda>k. gaia_fit pB pCB ([4, 6, 10, 20] ! k)
            ([0, 0, 0, 0] ! k) ([0, 0, 0, 0] ! k)
            ([1.20477819, 1.20477819, 1.20477819, 1.20477819] ! k)) [0..<4]))"
    by auto
  moreover have "[0..<4] = [0, Suc 0, Suc (Suc 0), Suc (Suc (Suc 0))]"
    by (simp add: numeral_eq_Suc)
  ultimately show ?thesis
    by (simp add: gaia_fit_def gcorr_spec_def polyval_def pB_def pCB_def)
qed


section \<open>Catalogues without augmentation\<close>

lemma rename_column_cols:
  "rename_column t old new = Inr t' \<Longrightarrow>
     cols t' = map (\<lambda>(k, c). (if k = old then new else k, c)) (cols t) \<and> meta t' = meta t"
  by (auto simp: rename_column_def split: if_splits)

lemma fix_radec_cols:
  assumes "fix_radec t = Inr t'"
  shows "meta t' = meta t"
    and "cols t' = (if ''_RAJ2000'' \<in> set (keys t) \<and> ''_DEJ2000'' \<in> set (keys t)
                        \<and> ''RAJ2000'' \<notin> set (keys t)
                    then radec_renamed (cols t) else cols t)"
proof -
  show "meta t' = meta t"
    using assms by (auto simp: fix_radec_def bnd_eq_Inr split: if_splits dest!: rename_column_cols)
  show "cols t' = (if ''_RAJ2000'' \<in> set (keys t) \<and> ''_DEJ2000'' \<in> set (keys t)
                        \<and> ''RAJ2000'' \<notin> set (keys t)
                    then radec_renamed (cols t) else cols t)"
  proof (cases "''_RAJ2000'' \<in> set (keys t) \<and> ''_DEJ2000'' \<in> set (keys t)
                        \<and> ''RAJ2000'' \<notin> set (keys t)")
    case False
    with assms show ?thesis by (auto simp: fix_radec_def)
  next
    case True
    with assms obtain t1 where r1: "rename_column t ''_RAJ2000'' ''RAJ2000'' = Inr t1"
      and r2: "rename_column t1 ''_DEJ2000'' ''DEJ2000'' = Inr t'"
      by (auto simp: fix_radec_def bnd_eq_Inr)
    from rename_column_cols [OF r1] rename_column_cols [OF r2]
    have "cols t' = radec_renamed (cols t)"
      by (auto simp: radec_renamed_def)
    with True show ?thesis by simp
  qed
qed

text \<open>
  C8, as amended. When \<open>get_cat_vizier\<close> returns a table for a catalogue that is none of
  \<open>ps1\<close>, \<open>atlas\<close>, \<open>gaiadr2\<close>, \<open>skymapper\<close>, \<open>apass\<close> and \<open>gaiadr3syn\<close>, the table is
  the one that Vizier sent, with the same columns in the same order and the same data,
  except that the metadata entries \<open>vizier_id\<close> and \<open>name\<close> are set and that, when the
  table has \<open>_RAJ2000\<close> and \<open>_DEJ2000\<close> but no \<open>RAJ2000\<close>, these two columns are named
  \<open>RAJ2000\<close> and \<open>DEJ2000\<close>.
\<close>

theorem unsupported_catalog:
  assumes run: "get_cat_vizier env ra0 dec0 sr0 catalog limit filters extra verbose w
                  = (Inr (Some t), w')"
    and cat: "catalog \<notin> {''ps1'', ''atlas'', ''gaiadr2'', ''skymapper'', ''apass'', ''gaiadr3syn''}"
  shows "\<exists>cat. retrieved env w w' cat
           \<and> meta t = dict_put ''name'' (fst (snd (resolve catalog extra)))
                        (dict_put ''vizier_id'' (fst (resolve catalog extra)) (meta cat))
           \<and> cols t = (if ''_RAJ2000'' \<in> set (keys cat) \<and> ''_DEJ2000'' \<in> set (keys cat)
                           \<and> ''RAJ2000'' \<notin> set (keys cat)
                        then radec_renamed (cols cat) else cols cat)"
proof -
  from get_cat_vizier_Some [OF run] obtain c where
    r: "retrieved env w w' c"
    and f: "bnd (fix_radec (c\<lparr>meta := dict_put ''name'' (fst (snd (resolve catalog extra)))
                                     (dict_put ''vizier_id'' (fst (resolve catalog extra))
                                        (meta c))\<rparr>))
               (augment catalog) = Inr t"
    by blast
  from cat have "augment catalog = Inr" by (auto simp: augment_def fun_eq_iff)
  with f have "fix_radec (c\<lparr>meta := dict_put ''name'' (fst (snd (resolve catalog extra)))
                                     (dict_put ''vizier_id'' (fst (resolve catalog extra))
                                        (meta c))\<rparr>) = Inr t"
    by (simp add: bnd_eq_Inr)
  from fix_radec_cols [OF this] r show ?thesis
    by (intro exI [of _ c]) (simp add: keys_def)
qed

theorem unsupported_catalog_witness:
  "the_table (fst (get_cat_vizier env_sdss 10 20 (1/2) ''sdss'' (-1) [] [] VFalse []))
     = \<lparr>cols = [(''RAJ2000'', NumCol [10.1]), (''DEJ2000'', NumCol [20.1]),
                 (''RA_ICRS'', NumCol [10.1]), (''DE_ICRS'', NumCol [20.1]),
                 (''gmag'', NumCol [17.5])],
         meta = [(''ID'', ''V_147_sdss12''), (''vizier_id'', ''V/147/sdss12''),
                 (''name'', ''SDSS DR12'')]\<rparr>"
proof -
  let ?r = "get_cat_vizier env_sdss 10 20 (1/2) ''sdss'' (-1) [] [] VFalse []"
  let ?t = "the_table (fst ?r)"
  have run: "?r = (Inr (Some ?t), snd ?r)"
    by (simp add: eval_defs env_sdss_def vizier_only_def sdss_stars_def the_table_def rename_column_def)
  have cat: "''sdss'' \<notin> {''ps1'', ''atlas'', ''gaiadr2'', ''skymapper'', ''apass'', ''gaiadr3syn''}"
    by simp
  from unsupported_catalog [OF run cat] obtain c where
    c: "retrieved env_sdss [] (snd ?r) c"
    and m: "meta ?t = dict_put ''name'' (fst (snd (resolve ''sdss'' [])))
                        (dict_put ''vizier_id'' (fst (resolve ''sdss'' [])) (meta c))"
    and k: "cols ?t = (if ''_RAJ2000'' \<in> set (keys c) \<and> ''_DEJ2000'' \<in> set (keys c)
                           \<and> ''RAJ2000'' \<notin> set (keys c)
                        then radec_renamed (cols c) else cols c)"
    by blast
  from c have "c = sdss_stars" by (auto simp: retrieved_def env_sdss_def vizier_only_def)
  with m k have "meta ?t = [(''ID'', ''V_147_sdss12''), (''vizier_id'', ''V/147/sdss12''),
                 (''name'', ''SDSS DR12'')]"
    "cols ?t = [(''RAJ2000'', NumCol [10.1]), (''DEJ2000'', NumCol [20.1]),
                 (''RA_ICRS'', NumCol [10.1]), (''DE_ICRS'', NumCol [20.1]),
                 (''gmag'', NumCol [17.5])]"
    by (simp_all add: sdss_stars_def resolve_def catalogs_def keys_def radec_renamed_def)
  then show ?thesis by (cases ?t) simp
qed

text \<open>
  For \<open>sdss\<close> the returned table differs from the table that Vizier sent: two columns
  have new names and the metadata has two more entries.
\<close>

theorem unsupported_catalog_counterexample:
  "vizier_query_region env_sdss [] (Vizier (-1)
       [''*'', ''RAJ2000'', ''DEJ2000'', ''e_RAJ2000'', ''e_DEJ2000'', ''_RAJ2000'', ''_DEJ2000'']
       [] 10 20 (1/2) ''V/147/sdss12'') = Inr (Some [sdss_stars])
 \<and> fst (get_cat_vizier env_sdss 10 20 (1/2) ''sdss'' (-1) [] [] VFalse [])
     = Inr (Some \<lparr>cols = [(''RAJ2000'', NumCol [10.1]), (''DEJ2000'', NumCol [20.1]),
                 (''RA_ICRS'', NumCol [10.1]), (''DE_ICRS'', NumCol [20.1]),
                 (''gmag'', NumCol [17.5])],
         meta = [(''ID'', ''V_147_sdss12''), (''vizier_id'', ''V/147/sdss12''),
                 (''name'', ''SDSS DR12'')]\<rparr>)
 \<and> \<lparr>cols = [(''RAJ2000'', NumCol [10.1]), (''DEJ2000'', NumCol [20.1]),
                 (''RA_ICRS'', NumCol [10.1]), (''DE_ICRS'', NumCol [20.1]),
                 (''gmag'', NumCol [17.5])],
         meta = [(''ID'', ''V_147_sdss12''), (''vizier_id'', ''V/147/sdss12''),
                 (''name'', ''SDSS DR12'')]\<rparr> \<noteq> sdss_stars"
  by (simp add: eval_defs env_sdss_def vizier_only_def sdss_stars_def rename_column_def)


section \<open>The magnitude errors of the Gaia DR3 synthetic photometry\<close>













end
